theory Spec2Isabelle
  imports Main "HOL-Library.Word"
begin

section \<open>Machine words and results\<close>

type_synonym u8 = "8 word"
type_synonym u32 = "32 word"
type_synonym u64 = "64 word"

text \<open>A C++ exception leaves every mutation made before the throw in place, so a thrown
  outcome carries the state reached at the throw. A conversion that has no state returns a sum,
  with the exception on the left.\<close>

datatype exception = Exception string | OutOfRange

datatype 's outcome = Returned 's | Threw exception 's

fun state_of :: "'s outcome \<Rightarrow> 's" where
  "state_of (Returned s) = s"
| "state_of (Threw e s) = s"

fun threw :: "'s outcome \<Rightarrow> bool" where
  "threw (Returned s) = False"
| "threw (Threw e s) = True"

fun exception_of :: "'s outcome \<Rightarrow> exception option" where
  "exception_of (Returned s) = None"
| "exception_of (Threw e s) = Some e"

datatype LogLevel = Warn | Debug

section \<open>pipeline\_state.cpp: the packed pipeline state and the leaf translators\<close>

subsection \<open>Hardware enumerations\<close>

text \<open>The enumerations of maxwell/types.h are not among the sources. An enumeration is the
  datatype of the enumerators the translators name, with one more constructor for any other
  register value.\<close>

datatype PolygonMode = PolygonMode_Point | PolygonMode_Line | PolygonMode_Fill | PolygonMode_Other u32

datatype CullFace = CullFace_Front | CullFace_Back | CullFace_FrontAndBack | CullFace_Other u32




datatype ColorTargetFormat =
    Disabled
  | RF32_GF32_BF32_AF32 | RS32_GS32_BS32_AS32 | RU32_GU32_BU32_AU32
  | RF32_GF32_BF32_X32 | RS32_GS32_BS32_X32 | RU32_GU32_BU32_X32
  | R16_G16_B16_A16 | RN16_GN16_BN16_AN16 | RS16_GS16_BS16_AS16 | RU16_GU16_BU16_AU16
  | RF16_GF16_BF16_AF16 | RF32_GF32 | RS32_GS32 | RU32_GU32 | RF16_GF16_BF16_X16
  | A8R8G8B8 | A8RL8GL8BL8 | A2B10G10R10 | AU2BU10GU10RU10
  | A8B8G8R8 | A8BL8GL8RL8 | AN8BN8GN8RN8 | AS8BS8GS8RS8
  | R16_G16 | RN16_GN16 | RS16_GS16 | RU16_GU16 | RF16_GF16
  | A2R10G10B10 | BF10GF11RF11 | RS32 | RU32 | RF32
  | X8R8G8B8 | X8RL8GL8BL8 | R5G6B5 | A1R5G5B5
  | G8R8 | GN8RN8 | GS8RS8 | GU8RU8
  | R16 | RN16 | RS16 | RU16 | RF16
  | R8 | RN8 | RS8 | RU8
  | X1R5G5B5 | X8B8G8R8 | X8BL8GL8RL8 | Z1R5G5B5 | O1R5G5B5 | Z8R8G8B8 | O8R8G8B8
  | ColorTargetFormat_Other u32

datatype ZtFormat = Z16 | Z24S8 | X8Z24 | S8Z24 | S8 | ZF32 | ZF32_X24S8 | ZtFormat_Other u32

datatype Layout = Pitch | Layout_Other u32

datatype ThirdDimensionControl = ThirdDimensionDefinesArraySize | ThirdDimensionControl_Other u32

datatype ZtSizeControl = ZtSize_ThirdDimensionDefinesArraySize | ArraySizeIsOne | ZtSizeControl_Other u32

subsection \<open>Host enumerations and formats\<close>

datatype vk_PolygonMode = eFill | eLine | ePoint

datatype vk_StencilOp =
    eKeep | eZero | eReplace | eIncrementAndClamp | eDecrementAndClamp | eInvert
  | eIncrementAndWrap | eDecrementAndWrap

type_synonym vk_CompareOp = u32

definition VK_CULL_MODE_FRONT_BIT :: u32 where "VK_CULL_MODE_FRONT_BIT = 1"
definition VK_CULL_MODE_BACK_BIT :: u32 where "VK_CULL_MODE_BACK_BIT = 2"

datatype vk_ImageViewType = e2D | e2DArray

datatype vk_ImageAspect = eColor | eDepth | eStencil | eDepthStencil

datatype TileMode = Linear | Block

datatype TextureFormat =
    R32G32B32A32Float | R32G32B32A32Sint | R32G32B32A32Uint
  | R16G16B16A16Unorm | R16G16B16A16Snorm | R16G16B16A16Sint | R16G16B16A16Uint | R16G16B16A16Float
  | R32G32Float | R32G32Sint | R32G32Uint
  | B8G8R8A8Unorm | B8G8R8A8Srgb | A2B10G10R10Unorm | A2B10G10R10Uint
  | R8G8B8A8Unorm | R8G8B8A8Srgb | R8G8B8A8Snorm | R8G8B8A8Sint
  | R16G16Unorm | R16G16Snorm | R16G16Sint | R16G16Uint | R16G16Float
  | B10G11R11Float | R32Sint | R32Uint | R32Float
  | R5G6B5Unorm | A1R5G5B5Unorm
  | R8G8Unorm | R8G8Snorm | R8G8Sint | R8G8Uint
  | R16Unorm | R16Snorm | R16Sint | R16Uint | R16Float
  | R8Unorm | R8Snorm | R8Sint | R8Uint
  | D16Unorm | S8UintD24Unorm | D24UnormX8Uint | D24UnormS8Uint | S8Uint | D32Float | D32FloatS8Uint

subsection \<open>Packed state\<close>

record ('op, 'cmp) StencilOps =
  zPass :: 'op
  fail :: 'op
  zFail :: 'op
  func :: 'cmp

record PackedPipelineState =
  colorRenderTargetFormats :: "u8 list"
  depthRenderTargetFormat :: u8
  polygonMode :: vk_PolygonMode
  cullMode :: u32
  depthFunc :: vk_CompareOp
  depthTestEnable :: bool
  depthWriteEnable :: bool
  depthBoundsTestEnable :: bool
  stencilTestEnable :: bool
  stencilFront :: "(vk_StencilOp, vk_CompareOp) StencilOps"
  stencilBack :: "(vk_StencilOp, vk_CompareOp) StencilOps"

text \<open>What the translators take from declarations and collaborators that are not among the
  sources: the register value of a format enumerator, the bytes per block and the aspect of a
  host format, the value-initialised guest texture, the size of a guest texture, and the
  address translation of the GPU memory manager.\<close>

record TileConfig =
  mode :: TileMode
  blockHeight :: u32
  blockDepth :: u32

record GuestTexture =
  format :: TextureFormat
  aspect :: vk_ImageAspect
  baseArrayLayer :: u32
  layerCount :: u32
  viewType :: vk_ImageViewType
  dimensions :: "u32 \<times> u32 \<times> u32"
  tileConfig :: TileConfig
  layerStride :: u32
  mappings :: "(u64 \<times> u64) list"

record Collaborators =
  colorFormatValue :: "ColorTargetFormat \<Rightarrow> u32"
  ztFormatValue :: "ZtFormat \<Rightarrow> u32"
  bpb :: "TextureFormat \<Rightarrow> u32"
  vkAspect :: "TextureFormat \<Rightarrow> vk_ImageAspect"
  GuestTexture_init :: GuestTexture
  GetSize :: "GuestTexture \<Rightarrow> u64"
  TranslateRange :: "u64 \<Rightarrow> u64 \<Rightarrow> (u64 \<times> u64) list"

definition SetColorRenderTargetFormat ::
  "Collaborators \<Rightarrow> nat \<Rightarrow> ColorTargetFormat \<Rightarrow> PackedPipelineState \<Rightarrow> PackedPipelineState" where
  "SetColorRenderTargetFormat C index fmt ps =
     ps\<lparr>colorRenderTargetFormats := (colorRenderTargetFormats ps)[index := ucast (colorFormatValue C fmt)]\<rparr>"

definition SetDepthRenderTargetFormat ::
  "Collaborators \<Rightarrow> ZtFormat \<Rightarrow> PackedPipelineState \<Rightarrow> PackedPipelineState" where
  "SetDepthRenderTargetFormat C fmt ps =
     ps\<lparr>depthRenderTargetFormat := ucast (ztFormatValue C fmt) - ucast (ztFormatValue C ZF32)\<rparr>"

text \<open>PackedPipelineState::SetPolygonMode. No case of the switch ends in a break or a return, so
  control runs from the matching label through every later statement to the throw.\<close>

definition SetPolygonMode :: "PolygonMode \<Rightarrow> PackedPipelineState \<Rightarrow> PackedPipelineState outcome" where
  "SetPolygonMode m ps =
     (let atDefault = (\<lambda>ps. Threw (Exception ''Invalid polygon mode: 0x{:X}'') ps);
          atPoint = (\<lambda>ps. atDefault (ps\<lparr>polygonMode := ePoint\<rparr>));
          atLine = (\<lambda>ps. atPoint (ps\<lparr>polygonMode := eLine\<rparr>));
          atFill = (\<lambda>ps. atLine (ps\<lparr>polygonMode := eFill\<rparr>))
      in case m of
           PolygonMode_Fill \<Rightarrow> atFill ps
         | PolygonMode_Line \<Rightarrow> atLine ps
         | PolygonMode_Point \<Rightarrow> atPoint ps
         | PolygonMode_Other v \<Rightarrow> atDefault ps)"

text \<open>PackedPipelineState::SetCullMode, with the same switch.\<close>

definition SetCullMode :: "bool \<Rightarrow> CullFace \<Rightarrow> PackedPipelineState \<Rightarrow> PackedPipelineState outcome" where
  "SetCullMode enable m ps =
     (if \<not> enable then Returned (ps\<lparr>cullMode := 0\<rparr>)
      else
        (let atDefault = (\<lambda>ps. Threw (Exception ''Invalid cull mode: 0x{:X}'') ps);
             atFrontAndBack =
               (\<lambda>ps. atDefault (ps\<lparr>cullMode := or VK_CULL_MODE_FRONT_BIT VK_CULL_MODE_BACK_BIT\<rparr>));
             atBack = (\<lambda>ps. atFrontAndBack (ps\<lparr>cullMode := VK_CULL_MODE_BACK_BIT\<rparr>));
             atFront = (\<lambda>ps. atBack (ps\<lparr>cullMode := VK_CULL_MODE_FRONT_BIT\<rparr>))
         in case m of
              CullFace_Front \<Rightarrow> atFront ps
            | CullFace_Back \<Rightarrow> atBack ps
            | CullFace_FrontAndBack \<Rightarrow> atFrontAndBack ps
            | CullFace_Other v \<Rightarrow> atDefault ps))"






subsection \<open>Depth stencil state\<close>



subsection \<open>Render targets\<close>

record TargetMemory =
  layout :: Layout
  thirdDimensionControl :: ThirdDimensionControl
  BlockHeight :: u32
  BlockDepth :: u32

record ColorTarget =
  offset :: u64
  width :: u32
  height :: u32
  target_format :: ColorTargetFormat
  memory :: TargetMemory
  thirdDimension :: u32
  ArrayPitch :: u32
  layerOffset :: u32

record DepthRenderTargetRegisters =
  engine_ztSize_width :: u32
  engine_ztSize_height :: u32
  engine_ztSize_thirdDimension :: u32
  engine_ztSize_control :: ZtSizeControl
  engine_ztOffset :: u64
  engine_ztFormat :: ZtFormat
  engine_ztBlockSize_BlockHeight :: u32
  engine_ztBlockSize_BlockDepth :: u32
  engine_ztArrayPitch :: u32
  engine_ztSelect_targetCount :: u32
  engine_ztLayer_offset :: u32

text \<open>What a flush of a render-target translator works on: the packed state, the view the
  translator holds (none is the null view), the descriptors it has asked the texture manager
  for a view of, and the warnings logged.\<close>

record RenderTargetFlush =
  packedState :: PackedPipelineState
  view :: "GuestTexture option"
  FindOrCreate :: "GuestTexture list"
  warnings :: "string list"

text \<open>ConvertColorRenderTargetFormat: the host format, and whether the case warns.\<close>

definition ConvertColorRenderTargetFormat :: "ColorTargetFormat \<Rightarrow> exception + (TextureFormat \<times> bool)" where
  "ConvertColorRenderTargetFormat f =
     (case f of
        RF32_GF32_BF32_AF32 \<Rightarrow> Inr (R32G32B32A32Float, False)
      | RS32_GS32_BS32_AS32 \<Rightarrow> Inr (R32G32B32A32Sint, False)
      | RU32_GU32_BU32_AU32 \<Rightarrow> Inr (R32G32B32A32Uint, False)
      | RF32_GF32_BF32_X32 \<Rightarrow> Inr (R32G32B32A32Float, True)
      | RS32_GS32_BS32_X32 \<Rightarrow> Inr (R32G32B32A32Sint, True)
      | RU32_GU32_BU32_X32 \<Rightarrow> Inr (R32G32B32A32Uint, True)
      | R16_G16_B16_A16 \<Rightarrow> Inr (R16G16B16A16Unorm, False)
      | RN16_GN16_BN16_AN16 \<Rightarrow> Inr (R16G16B16A16Snorm, False)
      | RS16_GS16_BS16_AS16 \<Rightarrow> Inr (R16G16B16A16Sint, False)
      | RU16_GU16_BU16_AU16 \<Rightarrow> Inr (R16G16B16A16Uint, False)
      | RF16_GF16_BF16_AF16 \<Rightarrow> Inr (R16G16B16A16Float, False)
      | RF32_GF32 \<Rightarrow> Inr (R32G32Float, False)
      | RS32_GS32 \<Rightarrow> Inr (R32G32Sint, False)
      | RU32_GU32 \<Rightarrow> Inr (R32G32Uint, False)
      | RF16_GF16_BF16_X16 \<Rightarrow> Inr (R16G16B16A16Float, True)
      | A8R8G8B8 \<Rightarrow> Inr (B8G8R8A8Unorm, False)
      | A8RL8GL8BL8 \<Rightarrow> Inr (B8G8R8A8Srgb, False)
      | A2B10G10R10 \<Rightarrow> Inr (A2B10G10R10Unorm, False)
      | AU2BU10GU10RU10 \<Rightarrow> Inr (A2B10G10R10Uint, False)
      | A8B8G8R8 \<Rightarrow> Inr (R8G8B8A8Unorm, False)
      | A8BL8GL8RL8 \<Rightarrow> Inr (R8G8B8A8Srgb, False)
      | AN8BN8GN8RN8 \<Rightarrow> Inr (R8G8B8A8Snorm, False)
      | AS8BS8GS8RS8 \<Rightarrow> Inr (R8G8B8A8Sint, False)
      | R16_G16 \<Rightarrow> Inr (R16G16Unorm, False)
      | RN16_GN16 \<Rightarrow> Inr (R16G16Snorm, False)
      | RS16_GS16 \<Rightarrow> Inr (R16G16Sint, False)
      | RU16_GU16 \<Rightarrow> Inr (R16G16Uint, False)
      | RF16_GF16 \<Rightarrow> Inr (R16G16Float, False)
      | A2R10G10B10 \<Rightarrow> Inr (A2B10G10R10Unorm, False)
      | BF10GF11RF11 \<Rightarrow> Inr (B10G11R11Float, False)
      | RS32 \<Rightarrow> Inr (R32Sint, False)
      | RU32 \<Rightarrow> Inr (R32Uint, False)
      | RF32 \<Rightarrow> Inr (R32Float, False)
      | X8R8G8B8 \<Rightarrow> Inr (B8G8R8A8Unorm, True)
      | X8RL8GL8BL8 \<Rightarrow> Inr (B8G8R8A8Srgb, True)
      | R5G6B5 \<Rightarrow> Inr (R5G6B5Unorm, False)
      | A1R5G5B5 \<Rightarrow> Inr (A1R5G5B5Unorm, False)
      | G8R8 \<Rightarrow> Inr (R8G8Unorm, False)
      | GN8RN8 \<Rightarrow> Inr (R8G8Snorm, False)
      | GS8RS8 \<Rightarrow> Inr (R8G8Sint, False)
      | GU8RU8 \<Rightarrow> Inr (R8G8Uint, False)
      | R16 \<Rightarrow> Inr (R16Unorm, False)
      | RN16 \<Rightarrow> Inr (R16Snorm, False)
      | RS16 \<Rightarrow> Inr (R16Sint, False)
      | RU16 \<Rightarrow> Inr (R16Uint, False)
      | RF16 \<Rightarrow> Inr (R16Float, False)
      | R8 \<Rightarrow> Inr (R8Unorm, False)
      | RN8 \<Rightarrow> Inr (R8Snorm, False)
      | RS8 \<Rightarrow> Inr (R8Sint, False)
      | RU8 \<Rightarrow> Inr (R8Uint, False)
      | X1R5G5B5 \<Rightarrow> Inr (A1R5G5B5Unorm, True)
      | X8B8G8R8 \<Rightarrow> Inr (R8G8B8A8Unorm, True)
      | X8BL8GL8RL8 \<Rightarrow> Inr (R8G8B8A8Srgb, True)
      | Z1R5G5B5 \<Rightarrow> Inr (A1R5G5B5Unorm, True)
      | O1R5G5B5 \<Rightarrow> Inr (A1R5G5B5Unorm, True)
      | Z8R8G8B8 \<Rightarrow> Inr (B8G8R8A8Unorm, True)
      | O8R8G8B8 \<Rightarrow> Inr (B8G8R8A8Unorm, True)
      | _ \<Rightarrow> Inl (Exception ''Unsupported colour rendertarget format: 0x{:X}''))"

definition ConvertDepthRenderTargetFormat :: "ZtFormat \<Rightarrow> exception + TextureFormat" where
  "ConvertDepthRenderTargetFormat f =
     (case f of
        Z16 \<Rightarrow> Inr D16Unorm
      | Z24S8 \<Rightarrow> Inr S8UintD24Unorm
      | X8Z24 \<Rightarrow> Inr D24UnormX8Uint
      | S8Z24 \<Rightarrow> Inr D24UnormS8Uint
      | S8 \<Rightarrow> Inr S8Uint
      | ZF32 \<Rightarrow> Inr D32Float
      | ZF32_X24S8 \<Rightarrow> Inr D32FloatS8Uint
      | _ \<Rightarrow> Inl (Exception ''Unsupported depth rendertarget format: 0x{:X}''))"

text \<open>ColorRenderTargetState::Flush, for the translator of the attachment slot \<open>index\<close>.
  \<open>BlockHeight\<close>, \<open>BlockDepth\<close> and \<open>ArrayPitch\<close> are what the member functions of
  these names return for the register. The view the texture manager returns is identified with
  the descriptor it was asked for.\<close>

definition ColorRenderTargetState_Flush ::
  "Collaborators \<Rightarrow> ColorTarget \<Rightarrow> nat \<Rightarrow> RenderTargetFlush \<Rightarrow> RenderTargetFlush outcome" where
  "ColorRenderTargetState_Flush C target index st =
     (let st1 = st\<lparr>packedState :=
                     SetColorRenderTargetFormat C index (target_format target) (packedState st)\<rparr>
      in if target_format target = Disabled then Returned (st1\<lparr>view := None\<rparr>)
         else
           case ConvertColorRenderTargetFormat (target_format target) of
             Inl e \<Rightarrow> Threw e st1
           | Inr (fmt, warns) \<Rightarrow>
               (let st2 = (if warns
                           then st1\<lparr>warnings := warnings st1 @ [''Partially supported RT format: {} used!'']\<rparr>
                           else st1);
                    thirdDimensionDefinesArraySize =
                      (thirdDimensionControl (memory target) = ThirdDimensionDefinesArraySize);
                    layers = (if thirdDimensionDefinesArraySize then thirdDimension target else 1);
                    depth = (if thirdDimensionDefinesArraySize then 1 else thirdDimension target);
                    guest = (GuestTexture_init C)
                            \<lparr>format := fmt,
                             aspect := eColor,
                             baseArrayLayer := layerOffset target,
                             layerCount := layers,
                             viewType := (if thirdDimension target > 1 then e2DArray else e2D),
                             dimensions :=
                               (if layout (memory target) = Pitch
                                then (width target div bpb C fmt, height target, depth)
                                else (width target, height target, depth)),
                             tileConfig :=
                               (if layout (memory target) = Pitch
                                then \<lparr>mode = Linear, blockHeight = 0, blockDepth = 0\<rparr>
                                else \<lparr>mode = Block, blockHeight = BlockHeight (memory target),
                                      blockDepth = BlockDepth (memory target)\<rparr>),
                             layerStride :=
                               (if layerOffset target > 1 \<or> layers > 1 then ArrayPitch target else 0)\<rparr>;
                    guest' = guest\<lparr>mappings := TranslateRange C (offset target) (GetSize C guest)\<rparr>
                in Returned (st2\<lparr>view := Some guest', FindOrCreate := FindOrCreate st2 @ [guest']\<rparr>)))"

text \<open>DepthRenderTargetState::Flush.\<close>

definition DepthRenderTargetState_Flush ::
  "Collaborators \<Rightarrow> DepthRenderTargetRegisters \<Rightarrow> RenderTargetFlush \<Rightarrow> RenderTargetFlush outcome" where
  "DepthRenderTargetState_Flush C engine st =
     (let st1 = st\<lparr>packedState := SetDepthRenderTargetFormat C (engine_ztFormat engine) (packedState st)\<rparr>
      in if engine_ztSelect_targetCount engine = 0 then Returned (st1\<lparr>view := None\<rparr>)
         else
           case ConvertDepthRenderTargetFormat (engine_ztFormat engine) of
             Inl e \<Rightarrow> Threw e st1
           | Inr fmt \<Rightarrow>
               (let guest0 = (GuestTexture_init C)
                             \<lparr>format := fmt,
                              aspect := vkAspect C fmt,
                              baseArrayLayer := engine_ztLayer_offset engine\<rparr>;
                    guest1 = (case engine_ztSize_control engine of
                                ZtSize_ThirdDimensionDefinesArraySize \<Rightarrow>
                                  guest0\<lparr>layerCount := engine_ztSize_thirdDimension engine,
                                         viewType := e2DArray\<rparr>
                              | ArraySizeIsOne \<Rightarrow> guest0\<lparr>layerCount := 1, viewType := e2D\<rparr>
                              | ZtSizeControl_Other v \<Rightarrow> guest0);
                    guest = guest1
                            \<lparr>dimensions := (engine_ztSize_width engine, engine_ztSize_height engine, 1),
                             tileConfig := \<lparr>mode = Block, blockHeight = engine_ztBlockSize_BlockHeight engine,
                                            blockDepth = engine_ztBlockSize_BlockDepth engine\<rparr>,
                             layerStride :=
                               (if baseArrayLayer guest1 > 1 \<or> layerCount guest1 > 1
                                then engine_ztArrayPitch engine else 0)\<rparr>;
                    guest' = guest\<lparr>mappings := TranslateRange C (engine_ztOffset engine) (GetSize C guest)\<rparr>
                in Returned (st1\<lparr>view := Some guest', FindOrCreate := FindOrCreate st1 @ [guest']\<rparr>)))"


subsection \<open>Concrete registers\<close>

text \<open>Register values and collaborators to run the translators on: two-sided stencil testing is
  enabled with keep operations for the front face and zero operations for the back face; the
  colour target is disabled and the depth target count is zero.\<close>

definition examplePacked :: PackedPipelineState where
  "examplePacked =
     \<lparr>colorRenderTargetFormats = replicate 8 0xFF, depthRenderTargetFormat = 0,
      polygonMode = eFill, cullMode = 0, depthFunc = 0,
      depthTestEnable = False, depthWriteEnable = False, depthBoundsTestEnable = False,
      stencilTestEnable = False,
      stencilFront = \<lparr>zPass = eZero, fail = eZero, zFail = eZero, func = 0\<rparr>,
      stencilBack = \<lparr>zPass = eZero, fail = eZero, zFail = eZero, func = 0\<rparr>\<rparr>"


definition exampleCollaborators :: Collaborators where
  "exampleCollaborators =
     \<lparr>colorFormatValue = (\<lambda>f. case f of Disabled \<Rightarrow> 0 | A8B8G8R8 \<Rightarrow> 0xD5
                                | ColorTargetFormat_Other v \<Rightarrow> v | _ \<Rightarrow> 0xC0),
      ztFormatValue = (\<lambda>f. case f of ZF32 \<Rightarrow> 0x0A | Z16 \<Rightarrow> 0x13 | ZtFormat_Other v \<Rightarrow> v | _ \<Rightarrow> 0x14),
      bpb = (\<lambda>f. 4),
      vkAspect = (\<lambda>f. eDepth),
      GuestTexture_init =
        \<lparr>format = R8Unorm, aspect = eColor, baseArrayLayer = 0, layerCount = 0, viewType = e2D,
         dimensions = (0, 0, 0), tileConfig = \<lparr>mode = Linear, blockHeight = 0, blockDepth = 0\<rparr>,
         layerStride = 0, mappings = []\<rparr>,
      GetSize = (\<lambda>g. case dimensions g of (w, h, d) \<Rightarrow> ucast (w * h * d * 4)),
      TranslateRange = (\<lambda>address size. [(address, size)])\<rparr>"

definition exampleColorTarget :: ColorTarget where
  "exampleColorTarget =
     \<lparr>offset = 0x1000, width = 1280, height = 720, target_format = Disabled,
      memory = \<lparr>layout = Layout_Other 0, thirdDimensionControl = ThirdDimensionDefinesArraySize,
                BlockHeight = 16, BlockDepth = 1\<rparr>,
      thirdDimension = 1, ArrayPitch = 0, layerOffset = 0\<rparr>"

definition exampleDepthTarget :: DepthRenderTargetRegisters where
  "exampleDepthTarget =
     \<lparr>engine_ztSize_width = 1024, engine_ztSize_height = 768, engine_ztSize_thirdDimension = 1,
      engine_ztSize_control = ArraySizeIsOne, engine_ztOffset = 0x2000, engine_ztFormat = ZF32,
      engine_ztBlockSize_BlockHeight = 16, engine_ztBlockSize_BlockDepth = 1,
      engine_ztArrayPitch = 0, engine_ztSelect_targetCount = 0, engine_ztLayer_offset = 0\<rparr>"

definition exampleFlush :: RenderTargetFlush where
  "exampleFlush = \<lparr>packedState = examplePacked, view = None, FindOrCreate = [], warnings = []\<rparr>"

section \<open>maxwell\_3d.cpp: the command dispatcher\<close>


subsection \<open>The register bundles of the interconnect\<close>

text \<open>MakePipelineStateRegisters and MakeActiveStateRegisters take registers by their field
  names. Here a register is the list of its words and a register array the list of its
  elements; util::MergeInto builds the bundle of element \<open>i\<close> from element \<open>i\<close> of every
  array it is given and from every single register it is given.\<close>

type_synonym reg = "u32 list"

record Registers =
  colorTargets :: "reg list"
  ztSize :: reg
  ztOffset :: reg
  ztFormat :: reg
  ztBlockSize :: reg
  ztArrayPitch :: reg
  ztSelect :: reg
  ztLayer :: reg
  vertexStreams :: "reg list"
  vertexStreamInstance :: "reg list"
  vertexAttributes :: "reg list"
  primitiveRestartEnable :: reg
  patchSize :: reg
  tessellationParameters :: reg
  rasterEnable :: reg
  frontPolygonMode :: reg
  backPolygonMode :: reg
  oglCullEnable :: reg
  oglCullFace :: reg
  windowOrigin :: reg
  oglFrontFace :: reg
  viewportClipControl :: reg
  polyOffset :: reg
  provokingVertex :: reg
  vertexStreamLimits :: "reg list"
  indexBuffer :: reg
  streamOutBuffers :: "reg list"
  streamOutEnable :: reg
  viewports :: "reg list"
  viewportClips :: "reg list"
  viewportScaleOffsetEnable :: reg
  scissors :: "reg list"
  lineWidth :: reg
  lineWidthAliased :: reg
  aliasedLineWidthEnable :: reg
  depthBias :: reg
  depthBiasClamp :: reg
  slopeScaleDepthBias :: reg
  blendConsts :: reg
  depthBoundsMin :: reg
  depthBoundsMax :: reg
  stencilValues :: reg
  backStencilValues :: reg
  twoSidedStencilTestEnable :: reg

record PipelineState_EngineRegisters =
  colorRenderTargetsRegisters :: "reg list"
  depthRenderTargetRegisters :: "reg \<times> reg \<times> reg \<times> reg \<times> reg \<times> reg \<times> reg"
  vertexInputRegisters :: "reg list \<times> reg list \<times> reg list"
  inputAssemblyRegisters :: reg
  tessellationRegisters :: "reg \<times> reg"
  rasterizationRegisters :: "reg \<times> reg \<times> reg \<times> reg \<times> reg \<times> reg \<times> reg \<times> reg \<times> reg \<times> reg"

record ActiveState_EngineRegisters =
  pipelineRegisters :: PipelineState_EngineRegisters
  vertexBuffersRegisters :: "(reg \<times> reg) list"
  indexBufferRegisters :: reg
  transformFeedbackBuffersRegisters :: "(reg \<times> reg) list"
  viewportsRegisters :: "(reg \<times> reg \<times> reg \<times> reg) list"
  scissorsRegisters :: "reg list"
  lineWidthRegisters :: "reg \<times> reg \<times> reg"
  depthBiasRegisters :: "reg \<times> reg \<times> reg"
  blendConstantsRegisters :: reg
  depthBoundsRegisters :: "reg \<times> reg"
  stencilValuesRegisters :: "reg \<times> reg \<times> reg"

definition MakePipelineStateRegisters :: "Registers \<Rightarrow> PipelineState_EngineRegisters" where
  "MakePipelineStateRegisters registers =
     \<lparr>colorRenderTargetsRegisters = colorTargets registers,
      depthRenderTargetRegisters =
        (ztSize registers, ztOffset registers, ztFormat registers, ztBlockSize registers,
         ztArrayPitch registers, ztSelect registers, ztLayer registers),
      vertexInputRegisters =
        (vertexStreams registers, vertexStreamInstance registers, vertexAttributes registers),
      inputAssemblyRegisters = primitiveRestartEnable registers,
      tessellationRegisters = (patchSize registers, tessellationParameters registers),
      rasterizationRegisters =
        (rasterEnable registers, frontPolygonMode registers, backPolygonMode registers,
         oglCullEnable registers, oglCullFace registers, windowOrigin registers,
         oglFrontFace registers, viewportClipControl registers, polyOffset registers,
         provokingVertex registers)\<rparr>"

definition MakeActiveStateRegisters :: "Registers \<Rightarrow> ActiveState_EngineRegisters" where
  "MakeActiveStateRegisters registers =
     \<lparr>pipelineRegisters = MakePipelineStateRegisters registers,
      vertexBuffersRegisters = zip (vertexStreams registers) (vertexStreamLimits registers),
      indexBufferRegisters = indexBuffer registers,
      transformFeedbackBuffersRegisters =
        map (\<lambda>b. (b, streamOutEnable registers)) (streamOutBuffers registers),
      viewportsRegisters =
        map (\<lambda>(v, c). (v, c, windowOrigin registers, viewportScaleOffsetEnable registers))
          (zip (viewports registers) (viewportClips registers)),
      scissorsRegisters = scissors registers,
      lineWidthRegisters =
        (lineWidth registers, lineWidthAliased registers, aliasedLineWidthEnable registers),
      depthBiasRegisters =
        (depthBias registers, depthBiasClamp registers, slopeScaleDepthBias registers),
      blendConstantsRegisters = blendConsts registers,
      depthBoundsRegisters = (depthBoundsMin registers, depthBoundsMin registers),
      stencilValuesRegisters =
        (stencilValues registers, backStencilValues registers, twoSidedStencilTestEnable registers)\<rparr>"

subsection \<open>The register file\<close>

text \<open>The dispatcher reaches the same registers word by word, through the method address of
  a write.\<close>

text \<open>The header that gives every register its word offset (maxwell\_3d.h, with the
  ENGINE\_OFFSET macros of engine.h) is not among the sources. A method address is therefore
  the name of the register word it selects, and different names are different words. \<open>Raw n\<close>
  is word \<open>n\<close> of the register file where it carries none of the names below. The structs
  \<open>drawVertexArray\<close> and \<open>drawIndexBuffer\<close> are taken to have the single member
  \<open>count\<close>, so that ENGINE\_CASE(drawVertexArray) and
  ENGINE\_STRUCT\_CASE(drawVertexArray, count) select the same word. Every case macro ends its
  case: no case falls through into the next one.\<close>

datatype Method =
    Mme_InstructionRamPointer | Mme_InstructionRamLoad
  | Mme_StartAddressRamPointer | Mme_StartAddressRamLoad
  | Mme_ShadowRamControl
  | I2m_LaunchDma | I2m_LoadInlineData
  | SyncpointAction | ClearSurface
  | Begin | End
  | VertexArrayStart | DrawVertexArray_Count
  | IndexBuffer_First | DrawIndexBuffer_Count
  | GlobalBaseVertexIndex | GlobalBaseInstanceIndex
  | PrimitiveTopologyControl | PrimitiveTopology
  | Semaphore_AddressHigh | Semaphore_AddressLow | Semaphore_Payload | Semaphore_Info
  | FirmwareCall nat
  | LoadConstantBuffer_Offset | LoadConstantBuffer_Data nat
  | BindGroups_ConstantBuffer nat
  | VertexStreams_Format nat | VertexStreams_Frequency nat
  | VertexStreamInstance nat | VertexAttributes nat
  | PrimitiveRestartEnable | TessellationParameters | PatchSize
  | Raw u32

type_synonym DrawTopology = u32

datatype MmeShadowRamControl = MethodTrack | MethodTrackWithFilter | MethodPassthrough | MethodReplay

datatype InstanceId = Subsequent | InstanceId_Other u32

datatype TopologyOverride = UseTopologyInBeginMethods | TopologyOverride_Other u32

datatype SemaphoreOp = Release | Counter | SemaphoreOp_Other u32

datatype CounterType = Zero | CounterType_Other u32

datatype StructureSize = OneWord | FourWords | StructureSize_Other u32

record SemaphoreInfo =
  op :: SemaphoreOp
  reductionEnable :: bool
  counterType :: CounterType
  structureSize :: StructureSize

text \<open>The bit-field types of maxwell/types.h are not among the sources either. What the
  dispatcher reads out of a register word through them is a parameter of the model.\<close>

record EngineTypes =
  shadowRamControlOf :: "u32 \<Rightarrow> MmeShadowRamControl"
  beginOp :: "u32 \<Rightarrow> DrawTopology"
  beginInstanceId :: "u32 \<Rightarrow> InstanceId"
  topologyOverride :: "u32 \<Rightarrow> TopologyOverride"
  ConvertPrimitiveTopologyToDrawTopology :: "u32 \<Rightarrow> DrawTopology"
  formatStride :: "u32 \<Rightarrow> u32"
  syncpointId :: "u32 \<Rightarrow> nat"
  syncpointCount :: nat
  semaphoreInfoOf :: "u32 \<Rightarrow> SemaphoreInfo"
  constantBufferShaderSlot :: "u32 \<Rightarrow> u32"
  constantBufferValid :: "u32 \<Rightarrow> bool"

subsection \<open>Dispatcher state\<close>

record DeferredDrawState =
  pending :: bool
  indexed :: bool
  drawTopology :: DrawTopology
  instanceCount :: u32
  drawCount :: u32
  drawFirst :: u32
  drawBaseVertex :: u32
  drawBaseInstance :: u32

record BatchLoadConstantBufferState =
  startOffset :: u32
  buffer :: "u32 list"

record MacroState =
  macroCode :: "u32 list"
  macroPositions :: "u32 list"

text \<open>Calls to the collaborators (interconnect, dirty manager, inline-to-memory engine,
  executor, syncpoints, GPU address space), in the order they are made.\<close>

datatype call =
    Draw DrawTopology bool u32 u32 u32 u32 u32
  | LoadConstantBuffer "u32 list" u32
  | MarkDirty Method
  | SetStride nat u32 | SetDivisor nat u32 | SetInputRate nat u32 | SetAttribute nat u32
  | SetPrimitiveRestart bool | SetParameters u32 | SetPatchControlPoints u32
  | LaunchDma | LoadInlineData u32
  | Submit | SyncpointIncrement nat
  | Clear u32
  | BindConstantBuffer nat u32 bool
  | GmmuWrite32 u64 u32 | GmmuWrite64 u64 u64 | GmmuWriteTicks u64

record Maxwell3D =
  registers :: "Method \<Rightarrow> u32"
  shadowRegisters :: "Method \<Rightarrow> u32"
  batchLoadConstantBuffer :: BatchLoadConstantBufferState
  deferredDraw :: DeferredDrawState
  macroState :: MacroState
  calls :: "call list"
  logger :: "(LogLevel \<times> string) list"

definition emit :: "call \<Rightarrow> Maxwell3D \<Rightarrow> Maxwell3D" where
  "emit c s = s\<lparr>calls := calls s @ [c]\<rparr>"

definition logMsg :: "LogLevel \<Rightarrow> string \<Rightarrow> Maxwell3D \<Rightarrow> Maxwell3D" where
  "logMsg l msg s = s\<lparr>logger := logger s @ [(l, msg)]\<rparr>"

definition setReg :: "Method \<Rightarrow> u32 \<Rightarrow> Maxwell3D \<Rightarrow> Maxwell3D" where
  "setReg r v s = s\<lparr>registers := (registers s)(r := v)\<rparr>"

text \<open>Modelled from the spec: \<open>DeferredDrawState::Set\<close> (maxwell\_3d.h). The record is
  created on a draw-triggering write; the instance count is changed only by begin writes and
  by the flush.\<close>

definition DeferredDraw_Set ::
  "u32 \<Rightarrow> u32 \<Rightarrow> u32 \<Rightarrow> u32 \<Rightarrow> DrawTopology \<Rightarrow> bool \<Rightarrow> DeferredDrawState \<Rightarrow> DeferredDrawState" where
  "DeferredDraw_Set pDrawCount pDrawFirst pDrawBaseVertex pDrawBaseInstance pDrawTopology pIndexed d =
     d\<lparr>pending := True, indexed := pIndexed, drawTopology := pDrawTopology,
       drawCount := pDrawCount, drawFirst := pDrawFirst,
       drawBaseVertex := pDrawBaseVertex, drawBaseInstance := pDrawBaseInstance\<rparr>"

text \<open>Modelled from the spec: \<open>BatchLoadConstantBufferState::Active\<close>, \<open>Invalidate\<close> and
  \<open>Reset\<close> (maxwell\_3d.h). The batch is active from its creation by the first data write,
  which records the start offset and the first word, until the flush clears it; the flush
  hands the recorded start offset to the bulk load call.\<close>

definition Active :: "BatchLoadConstantBufferState \<Rightarrow> bool" where
  "Active b = (buffer b \<noteq> [])"

definition Invalidate :: "BatchLoadConstantBufferState \<Rightarrow> u32" where
  "Invalidate b = startOffset b"

definition Reset :: "BatchLoadConstantBufferState \<Rightarrow> BatchLoadConstantBufferState" where
  "Reset b = b\<lparr>buffer := []\<rparr>"

subsection \<open>Maxwell3D::GetCurrentTopology, Maxwell3D::FlushDeferredDraw\<close>

definition GetCurrentTopology :: "EngineTypes \<Rightarrow> Maxwell3D \<Rightarrow> DrawTopology" where
  "GetCurrentTopology T s =
     (if topologyOverride T (registers s PrimitiveTopologyControl) = UseTopologyInBeginMethods
      then beginOp T (registers s Begin)
      else ConvertPrimitiveTopologyToDrawTopology T (registers s PrimitiveTopology))"

definition FlushDeferredDraw :: "Maxwell3D \<Rightarrow> Maxwell3D" where
  "FlushDeferredDraw s =
     (let d = deferredDraw s in
      if pending d then
        (emit (Draw (drawTopology d) (indexed d) (drawCount d) (drawFirst d)
                    (instanceCount d) (drawBaseVertex d) (drawBaseInstance d)) s)
          \<lparr>deferredDraw := d\<lparr>pending := False, instanceCount := 1\<rparr>\<rparr>
      else s)"

subsection \<open>Maxwell3D::HandleMethod\<close>

text \<open>Lines 81 to 84: the shadow layer gives the argument the rest of the function sees.\<close>

definition ShadowLayer :: "EngineTypes \<Rightarrow> Maxwell3D \<Rightarrow> Method \<Rightarrow> u32 \<Rightarrow> u32 \<times> Maxwell3D" where
  "ShadowLayer T s method argument =
     (let mode = shadowRamControlOf T (shadowRegisters s Mme_ShadowRamControl) in
      if mode = MethodTrack \<or> mode = MethodTrackWithFilter then
        (argument, s\<lparr>shadowRegisters := (shadowRegisters s)(method := argument)\<rparr>)
      else if mode = MethodReplay then (shadowRegisters s method, s)
      else (argument, s))"

text \<open>A layer either returns from HandleMethod or lets it go on.\<close>

datatype flow = Return Maxwell3D | Continue Maxwell3D

text \<open>Lines 106 and 107 (and 335, 336): submit the batch that was built up.\<close>

definition SubmitBatch :: "Maxwell3D \<Rightarrow> Maxwell3D" where
  "SubmitBatch s =
     (let b = batchLoadConstantBuffer s in
      (emit (LoadConstantBuffer (buffer b) (Invalidate b)) s)
        \<lparr>batchLoadConstantBuffer := Reset b\<rparr>)"

text \<open>Lines 92 to 109, entered when the batch is active.\<close>

definition BatchLayer :: "Maxwell3D \<Rightarrow> Method \<Rightarrow> u32 \<Rightarrow> flow" where
  "BatchLayer s method argument =
     (case method of
        LoadConstantBuffer_Data index \<Rightarrow>
          if index < 16 then
            (let b = batchLoadConstantBuffer s in
             Return (setReg LoadConstantBuffer_Offset (registers s LoadConstantBuffer_Offset + 4)
                       (s\<lparr>batchLoadConstantBuffer := b\<lparr>buffer := buffer b @ [argument]\<rparr>\<rparr>)))
          else Continue (SubmitBatch s)
      | _ \<Rightarrow> Continue (SubmitBatch s))"

text \<open>Lines 111 to 146, entered when no batch is active and a draw is pending.\<close>

definition DeferredDrawLayer :: "EngineTypes \<Rightarrow> Maxwell3D \<Rightarrow> Method \<Rightarrow> u32 \<Rightarrow> bool \<Rightarrow> flow" where
  "DeferredDrawLayer T s method argument redundant =
     (case method of
        Begin \<Rightarrow>
          if beginInstanceId T argument = Subsequent then
            (let s' = (if drawTopology (deferredDraw s) \<noteq> beginOp T argument \<and>
                          topologyOverride T (registers s PrimitiveTopologyControl) = UseTopologyInBeginMethods
                       then logMsg Warn ''Vertex topology changed partway through instanced draw!'' s
                       else s);
                 d = deferredDraw s'
             in Return (s'\<lparr>deferredDraw := d\<lparr>instanceCount := instanceCount d + 1\<rparr>\<rparr>))
          else Continue (FlushDeferredDraw s)
      | End \<Rightarrow> Return s
      | DrawVertexArray_Count \<Rightarrow>
          Return (if \<not> redundant
                  then logMsg Warn ''Vertex count changed partway through instanced draw!'' s else s)
      | DrawIndexBuffer_Count \<Rightarrow>
          Return (if \<not> redundant
                  then logMsg Warn ''Index count changed partway through instanced draw!'' s else s)
      | _ \<Rightarrow> Continue (FlushDeferredDraw s))"

text \<open>Lines 150 to 196. The case macros generate sixteen cases for the vertex streams and
  sixteen for the vertex attributes.\<close>

definition DirtyLayer :: "EngineTypes \<Rightarrow> Maxwell3D \<Rightarrow> Method \<Rightarrow> u32 \<Rightarrow> bool \<Rightarrow> Maxwell3D" where
  "DirtyLayer T s method argument redundant =
     (if \<not> redundant then
        (let s' = emit (MarkDirty method) s in
         case method of
           VertexStreams_Format idx \<Rightarrow>
             if idx < 16 then emit (SetStride idx (formatStride T argument)) s' else s'
         | VertexStreams_Frequency idx \<Rightarrow>
             if idx < 16 then emit (SetDivisor idx argument) s' else s'
         | VertexStreamInstance idx \<Rightarrow>
             if idx < 16 then emit (SetInputRate idx argument) s' else s'
         | VertexAttributes idx \<Rightarrow>
             if idx < 16 then emit (SetAttribute idx argument) s' else s'
         | PrimitiveRestartEnable \<Rightarrow> emit (SetPrimitiveRestart (argument \<noteq> 0)) s'
         | TessellationParameters \<Rightarrow> emit (SetParameters argument) s'
         | PatchSize \<Rightarrow> emit (SetPatchControlPoints argument) s'
         | _ \<Rightarrow> s')
      else s)"

text \<open>Maxwell3D::WriteSemaphoreResult. The time stamp comes from the host clock.\<close>

definition semaphoreAddress :: "Maxwell3D \<Rightarrow> u64" where
  "semaphoreAddress s =
     push_bit 32 (ucast (registers s Semaphore_AddressHigh)) + ucast (registers s Semaphore_AddressLow)"

definition WriteSemaphoreResult :: "EngineTypes \<Rightarrow> u64 \<Rightarrow> Maxwell3D \<Rightarrow> Maxwell3D" where
  "WriteSemaphoreResult T result s =
     (let address = semaphoreAddress s in
      case structureSize (semaphoreInfoOf T (registers s Semaphore_Info)) of
        OneWord \<Rightarrow> logMsg Debug ''address: 0x{:X} payload: {}'' (emit (GmmuWrite32 address (ucast result)) s)
      | FourWords \<Rightarrow>
          logMsg Debug ''address: 0x{:X} payload: {} timestamp: {}''
            (emit (GmmuWrite64 address result) (emit (GmmuWriteTicks (address + 8)) s))
      | StructureSize_Other v \<Rightarrow> s)"

text \<open>Lines 198 to 307.\<close>

definition MethodSwitch :: "EngineTypes \<Rightarrow> Maxwell3D \<Rightarrow> Method \<Rightarrow> u32 \<Rightarrow> Maxwell3D outcome" where
  "MethodSwitch T s method argument =
     (case method of
        Mme_InstructionRamLoad \<Rightarrow>
          (let p = registers s Mme_InstructionRamPointer; m = macroState s in
           if unat p \<ge> length (macroCode m) then Threw (Exception ''Macro memory is full!'') s
           else Returned
                  (setReg Mme_InstructionRamPointer (of_nat (unat (p + 1) mod length (macroCode m)))
                     (s\<lparr>macroState := m\<lparr>macroCode := (macroCode m)[unat p := argument]\<rparr>\<rparr>)))
      | Mme_StartAddressRamLoad \<Rightarrow>
          (let p = registers s Mme_StartAddressRamPointer; m = macroState s in
           if unat p \<ge> length (macroPositions m) then
             Threw (Exception ''Maximum amount of macros reached!'') s
           else Returned
                  (setReg Mme_StartAddressRamPointer (p + 1)
                     (s\<lparr>macroState := m\<lparr>macroPositions := (macroPositions m)[unat p := argument]\<rparr>\<rparr>)))
      | I2m_LaunchDma \<Rightarrow> Returned (emit LaunchDma s)
      | I2m_LoadInlineData \<Rightarrow> Returned (emit (LoadInlineData argument) s)
      | SyncpointAction \<Rightarrow>
          (let s' = emit Submit (logMsg Debug ''Increment syncpoint: {}'' s) in
           if syncpointId T argument < syncpointCount T
           then Returned (emit (SyncpointIncrement (syncpointId T argument)) s')
           else Threw OutOfRange s')
      | ClearSurface \<Rightarrow> Returned (emit (Clear argument) s)
      | Begin \<Rightarrow>
          (let d = deferredDraw s in
           if beginInstanceId T argument = Subsequent
           then Returned (s\<lparr>deferredDraw := d\<lparr>instanceCount := instanceCount d + 1\<rparr>\<rparr>)
           else Returned (s\<lparr>deferredDraw := d\<lparr>instanceCount := 1\<rparr>\<rparr>))
      | DrawVertexArray_Count \<Rightarrow>
          Returned (s\<lparr>deferredDraw :=
            DeferredDraw_Set argument (registers s VertexArrayStart) 0
              (registers s GlobalBaseInstanceIndex) (GetCurrentTopology T s) False (deferredDraw s)\<rparr>)
      | DrawIndexBuffer_Count \<Rightarrow>
          Returned (s\<lparr>deferredDraw :=
            DeferredDraw_Set argument (registers s IndexBuffer_First) (registers s GlobalBaseVertexIndex)
              (registers s GlobalBaseInstanceIndex) (GetCurrentTopology T s) True (deferredDraw s)\<rparr>)
      | Semaphore_Info \<Rightarrow>
          (let info = semaphoreInfoOf T argument;
               s' = (if reductionEnable info
                     then logMsg Warn ''Semaphore reduction is unimplemented!'' s else s)
           in case op info of
                Release \<Rightarrow>
                  Returned (WriteSemaphoreResult T (ucast (registers s' Semaphore_Payload)) (emit Submit s'))
              | Counter \<Rightarrow>
                  (case counterType info of
                     Zero \<Rightarrow> Returned (WriteSemaphoreResult T (ucast (registers s' Semaphore_Payload)) s')
                   | CounterType_Other c \<Rightarrow> Returned s')
              | SemaphoreOp_Other v \<Rightarrow>
                  Returned (logMsg Warn ''Unsupported semaphore operation: 0x{:X}'' s'))
      | FirmwareCall idx \<Rightarrow>
          if idx = 4 then Returned (setReg (Raw 0xD00) 1 s) else Returned s
      | LoadConstantBuffer_Data index \<Rightarrow>
          if index < 16 then
            (let b = batchLoadConstantBuffer s in
             Returned
               (setReg LoadConstantBuffer_Offset (registers s LoadConstantBuffer_Offset + 4)
                  (s\<lparr>batchLoadConstantBuffer :=
                       b\<lparr>startOffset := registers s LoadConstantBuffer_Offset,
                         buffer := buffer b @ [argument]\<rparr>\<rparr>)))
          else Returned s
      | BindGroups_ConstantBuffer idx \<Rightarrow>
          if idx < 5 then
            Returned (emit (BindConstantBuffer idx (constantBufferShaderSlot T argument)
                              (constantBufferValid T argument)) s)
          else Returned s
      | _ \<Rightarrow> Returned s)"

definition HandleMethod :: "EngineTypes \<Rightarrow> Maxwell3D \<Rightarrow> Method \<Rightarrow> u32 \<Rightarrow> Maxwell3D outcome" where
  "HandleMethod T s method argument =
     (if method = Mme_ShadowRamControl then
        Returned (s\<lparr>registers := (registers s)(method := argument),
                    shadowRegisters := (shadowRegisters s)(method := argument)\<rparr>)
      else
        (let (argument', s1) = ShadowLayer T s method argument;
             redundant = (registers s1 method = argument');
             s2 = setReg method argument' s1
         in case (if Active (batchLoadConstantBuffer s2) then BatchLayer s2 method argument'
                  else if pending (deferredDraw s2)
                       then DeferredDrawLayer T s2 method argument' redundant
                       else Continue s2) of
              Return s3 \<Rightarrow> Returned s3
            | Continue s3 \<Rightarrow>
                MethodSwitch T (DirtyLayer T s3 method argument' redundant) method argument'))"

text \<open>Maxwell3D::FlushEngineState, and Maxwell3D::CallMethod without its verbose log line.\<close>

definition FlushEngineState :: "Maxwell3D \<Rightarrow> Maxwell3D" where
  "FlushEngineState s =
     (let s' = FlushDeferredDraw s in
      if Active (batchLoadConstantBuffer s') then SubmitBatch s' else s')"

definition CallMethod :: "EngineTypes \<Rightarrow> Maxwell3D \<Rightarrow> Method \<Rightarrow> u32 \<Rightarrow> Maxwell3D outcome" where
  "CallMethod T s method argument = HandleMethod T s method argument"

text \<open>The inbound write stream: one CallMethod per write, in order. An exception goes up to
  the caller and ends the stream.\<close>

fun CallMethods :: "EngineTypes \<Rightarrow> Maxwell3D \<Rightarrow> (Method \<times> u32) list \<Rightarrow> Maxwell3D outcome" where
  "CallMethods T s [] = Returned s"
| "CallMethods T s ((method, argument) # ws) =
     (case CallMethod T s method argument of
        Returned s' \<Rightarrow> CallMethods T s' ws
      | Threw e s' \<Rightarrow> Threw e s')"


subsection \<open>Notions the properties are stated with\<close>

fun flow_state :: "flow \<Rightarrow> Maxwell3D" where
  "flow_state (Return s) = s"
| "flow_state (Continue s) = s"

text \<open>The argument as the shadow layer leaves it, and the state after line 88 has committed
  it to the register file.\<close>

definition effArg :: "EngineTypes \<Rightarrow> Maxwell3D \<Rightarrow> Method \<Rightarrow> u32 \<Rightarrow> u32" where
  "effArg T s m a = fst (ShadowLayer T s m a)"

definition committed :: "EngineTypes \<Rightarrow> Maxwell3D \<Rightarrow> Method \<Rightarrow> u32 \<Rightarrow> Maxwell3D" where
  "committed T s m a = setReg m (effArg T s m a) (snd (ShadowLayer T s m a))"

definition writtenValue :: "EngineTypes \<Rightarrow> Maxwell3D \<Rightarrow> Method \<Rightarrow> u32 \<Rightarrow> u32" where
  "writtenValue T s m a = (if m = Mme_ShadowRamControl then a else effArg T s m a)"

text \<open>Lines 91 to 147 as one step.\<close>

definition layerFlow :: "EngineTypes \<Rightarrow> Maxwell3D \<Rightarrow> Method \<Rightarrow> u32 \<Rightarrow> flow" where
  "layerFlow T s m a =
     (let s2 = committed T s m a in
      if Active (batchLoadConstantBuffer s2) then BatchLayer s2 m (effArg T s m a)
      else if pending (deferredDraw s2)
           then DeferredDrawLayer T s2 m (effArg T s m a) (registers s m = effArg T s m a)
           else Continue s2)"

text \<open>The state the flushes of lines 106 and 144 leave.\<close>

definition flushed :: "Maxwell3D \<Rightarrow> Maxwell3D" where
  "flushed s = (if Active (batchLoadConstantBuffer s) then SubmitBatch s
                else if pending (deferredDraw s) then FlushDeferredDraw s else s)"

text \<open>The methods with a case of their own in the batch layer, and in the deferred-draw
  layer.\<close>

fun dataMethod :: "Method \<Rightarrow> bool" where
  "dataMethod (LoadConstantBuffer_Data index) = (index < 16)"
| "dataMethod _ = False"

fun drawMethod :: "Method \<Rightarrow> bool" where
  "drawMethod Begin = True"
| "drawMethod End = True"
| "drawMethod DrawVertexArray_Count = True"
| "drawMethod DrawIndexBuffer_Count = True"
| "drawMethod _ = False"

fun isDraw :: "call \<Rightarrow> bool" where
  "isDraw (Draw t i c f n bv bi) = True"
| "isDraw _ = False"

fun isLoadConstantBuffer :: "call \<Rightarrow> bool" where
  "isLoadConstantBuffer (LoadConstantBuffer ws off) = True"
| "isLoadConstantBuffer _ = False"

text \<open>The calls of lines 150 to 196, made only when a write changes the register.\<close>

fun isChangeCall :: "call \<Rightarrow> bool" where
  "isChangeCall (MarkDirty m) = True"
| "isChangeCall (SetStride i v) = True"
| "isChangeCall (SetDivisor i v) = True"
| "isChangeCall (SetInputRate i v) = True"
| "isChangeCall (SetAttribute i v) = True"
| "isChangeCall (SetPrimitiveRestart b) = True"
| "isChangeCall (SetParameters v) = True"
| "isChangeCall (SetPatchControlPoints v) = True"
| "isChangeCall _ = False"

text \<open>A write of a word to the constant-buffer data register with the given index.\<close>

definition dataWrite :: "nat \<times> u32 \<Rightarrow> Method \<times> u32" where
  "dataWrite p = (LoadConstantBuffer_Data (fst p), snd p)"

text \<open>A batch and a pending draw never coexist.\<close>

definition exclusive :: "Maxwell3D \<Rightarrow> bool" where
  "exclusive s = (if Active (batchLoadConstantBuffer s) then pending (deferredDraw s) = False else True)"

subsection \<open>A concrete engine\<close>

text \<open>One instance of the parameters and a small state, to run the dispatcher on concrete
  writes: every field sits at a fixed bit position of its register word, the microcode memory
  has four words and the macro-position table two.\<close>

definition exampleTypes :: EngineTypes where
  "exampleTypes =
     \<lparr>shadowRamControlOf = (\<lambda>w. if w = 0 then MethodTrack else if w = 1 then MethodTrackWithFilter
                                 else if w = 3 then MethodReplay else MethodPassthrough),
      beginOp = (\<lambda>w. take_bit 16 w),
      beginInstanceId = (\<lambda>w. if take_bit 2 (drop_bit 26 w) = 1 then Subsequent
                              else InstanceId_Other (take_bit 2 (drop_bit 26 w))),
      topologyOverride = (\<lambda>w. if take_bit 1 w = 0 then UseTopologyInBeginMethods
                               else TopologyOverride_Other (take_bit 1 w)),
      ConvertPrimitiveTopologyToDrawTopology = (\<lambda>w. w),
      formatStride = (\<lambda>w. take_bit 12 w),
      syncpointId = (\<lambda>w. unat (take_bit 12 w)),
      syncpointCount = 192,
      semaphoreInfoOf = (\<lambda>w. \<lparr>op = (if take_bit 2 w = 0 then Release
                                       else if take_bit 2 w = 2 then Counter
                                       else SemaphoreOp_Other (take_bit 2 w)),
                                reductionEnable = bit w 19,
                                counterType = (if take_bit 5 (drop_bit 23 w) = 0 then Zero
                                               else CounterType_Other (take_bit 5 (drop_bit 23 w))),
                                structureSize = (if bit w 28 then OneWord else FourWords)\<rparr>),
      constantBufferShaderSlot = (\<lambda>w. take_bit 5 (drop_bit 4 w)),
      constantBufferValid = (\<lambda>w. bit w 0)\<rparr>"

definition exampleState :: Maxwell3D where
  "exampleState =
     \<lparr>registers = (\<lambda>r. 0),
      shadowRegisters = (\<lambda>r. 0),
      batchLoadConstantBuffer = \<lparr>startOffset = 0, buffer = []\<rparr>,
      deferredDraw = \<lparr>pending = False, indexed = False, drawTopology = 0, instanceCount = 1,
                      drawCount = 0, drawFirst = 0, drawBaseVertex = 0, drawBaseInstance = 0\<rparr>,
      macroState = \<lparr>macroCode = [0, 0, 0, 0], macroPositions = [0, 0]\<rparr>,
      calls = [],
      logger = []\<rparr>"

definition beginSubsequent :: u32 where
  "beginSubsequent = 0x4000004"

definition replayState :: Maxwell3D where
  "replayState =
     exampleState\<lparr>shadowRegisters := (\<lambda>r. 0)(Mme_ShadowRamControl := 3, Begin := 7)\<rparr>"

definition fullState :: Maxwell3D where
  "fullState =
     exampleState\<lparr>registers := (\<lambda>r. 0)(Mme_InstructionRamPointer := 4,
                                           Mme_StartAddressRamPointer := 2)\<rparr>"

definition pendingState :: Maxwell3D where
  "pendingState = state_of (HandleMethod exampleTypes exampleState DrawVertexArray_Count 3)"

section \<open>Properties of the packed state and the leaf translators\<close>

text \<open>Claim C1. For a polygon mode in {Fill, Line, Point} SetPolygonMode should store the
  matching host polygon mode and not throw, and for a cull face in {Front, Back,
  FrontAndBack} with culling enabled SetCullMode should store the matching host cull mode and
  not throw. The code does neither: every case falls through to the throw of the default
  case, after the assignments of the later cases have overwritten the value.\<close>

theorem polygon_and_cull_mode_fall_through_to_throw:
  "SetPolygonMode PolygonMode_Fill ps =
     Threw (Exception ''Invalid polygon mode: 0x{:X}'') (ps\<lparr>polygonMode := ePoint\<rparr>) \<and>
   SetPolygonMode PolygonMode_Line ps =
     Threw (Exception ''Invalid polygon mode: 0x{:X}'') (ps\<lparr>polygonMode := ePoint\<rparr>) \<and>
   SetPolygonMode PolygonMode_Point ps =
     Threw (Exception ''Invalid polygon mode: 0x{:X}'') (ps\<lparr>polygonMode := ePoint\<rparr>) \<and>
   SetCullMode True CullFace_Front ps =
     Threw (Exception ''Invalid cull mode: 0x{:X}'') (ps\<lparr>cullMode := 3\<rparr>) \<and>
   SetCullMode True CullFace_Back ps =
     Threw (Exception ''Invalid cull mode: 0x{:X}'') (ps\<lparr>cullMode := 3\<rparr>) \<and>
   SetCullMode True CullFace_FrontAndBack ps =
     Threw (Exception ''Invalid cull mode: 0x{:X}'') (ps\<lparr>cullMode := 3\<rparr>)"
  by (simp add: SetPolygonMode_def SetCullMode_def VK_CULL_MODE_FRONT_BIT_def
      VK_CULL_MODE_BACK_BIT_def)





text \<open>Claim C9. When the format register of a colour target is Disabled, the flush of its
  translator returns without an exception, holds the null view, asks the texture manager for
  no view, and leaves the register value of Disabled in the colour-format field of its slot;
  when the target count of the depth-target select register is zero, the flush of the depth
  translator returns without an exception, holds the null view and asks for no view.\<close>

theorem disabled_render_targets_yield_null_view:
  "(target_format target = Disabled \<and> index < length (colorRenderTargetFormats (packedState st)) \<longrightarrow>
      (let r = ColorRenderTargetState_Flush C target index st; st' = state_of r in
       exception_of r = None \<and> view st' = None \<and> FindOrCreate st' = FindOrCreate st \<and>
       colorRenderTargetFormats (packedState st') ! index = ucast (colorFormatValue C Disabled))) \<and>
   (engine_ztSelect_targetCount engine = 0 \<longrightarrow>
      (let r = DepthRenderTargetState_Flush C engine st; st' = state_of r in
       exception_of r = None \<and> view st' = None \<and> FindOrCreate st' = FindOrCreate st))"
  by (simp add: ColorRenderTargetState_Flush_def DepthRenderTargetState_Flush_def
      SetColorRenderTargetFormat_def Let_def)

text \<open>The disabled colour target in slot 0 and the depth target with target count zero.\<close>

theorem disabled_render_targets_yield_null_view_witness:
  "target_format exampleColorTarget = Disabled \<and>
   0 < length (colorRenderTargetFormats (packedState exampleFlush)) \<and>
   engine_ztSelect_targetCount exampleDepthTarget = 0 \<and>
   view (state_of (ColorRenderTargetState_Flush exampleCollaborators exampleColorTarget 0 exampleFlush)) = None \<and>
   colorRenderTargetFormats (packedState (state_of
     (ColorRenderTargetState_Flush exampleCollaborators exampleColorTarget 0 exampleFlush))) ! 0 = 0 \<and>
   view (state_of (DepthRenderTargetState_Flush exampleCollaborators exampleDepthTarget exampleFlush)) = None"
  using disabled_render_targets_yield_null_view
    [where target = exampleColorTarget and index = 0 and st = exampleFlush
       and C = exampleCollaborators and engine = exampleDepthTarget]
  by (simp add: examplePacked_def exampleCollaborators_def exampleColorTarget_def
      exampleDepthTarget_def exampleFlush_def Let_def)

section \<open>Properties of the register bundles and the dispatcher\<close>

text \<open>Claim C10. Both fields of the depth-bounds bundle made by MakeActiveStateRegisters are the
  register depthBoundsMin, and the bundles made from two register states that differ only in
  depthBoundsMax are the same: depthBoundsMax reaches nothing that is built from them.\<close>

theorem depth_bounds_bundle_reads_min_twice:
  "depthBoundsRegisters (MakeActiveStateRegisters r) = (depthBoundsMin r, depthBoundsMin r) \<and>
   MakeActiveStateRegisters (r\<lparr>depthBoundsMax := x\<rparr>) = MakeActiveStateRegisters r"
  by (simp add: MakeActiveStateRegisters_def MakePipelineStateRegisters_def)

subsection \<open>The layers of HandleMethod\<close>

lemmas example_defs = exampleTypes_def exampleState_def

lemmas run_defs = CallMethod_def HandleMethod_def ShadowLayer_def BatchLayer_def
  DeferredDrawLayer_def DirtyLayer_def MethodSwitch_def SubmitBatch_def FlushDeferredDraw_def
  GetCurrentTopology_def DeferredDraw_Set_def Active_def Invalidate_def Reset_def
  emit_def logMsg_def setReg_def effArg_def Let_def

lemmas layer_defs = ShadowLayer_def BatchLayer_def DeferredDrawLayer_def DirtyLayer_def
  SubmitBatch_def FlushDeferredDraw_def emit_def logMsg_def setReg_def

lemma BatchLayer_registers:
  "registers (flow_state (BatchLayer s m a)) m = registers s m"
  by (cases m) (simp_all add: layer_defs Let_def)

lemma DeferredDrawLayer_registers:
  "registers (flow_state (DeferredDrawLayer T s m a r)) = registers s"
  by (cases m) (simp_all add: layer_defs Let_def)

lemma DirtyLayer_registers:
  "registers (DirtyLayer T s m a r) = registers s"
  by (cases m) (simp_all add: layer_defs Let_def)

lemma MethodSwitch_registers:
  "registers (state_of (MethodSwitch T s m a)) m = registers s m"
  by (cases m) (simp_all add: MethodSwitch_def WriteSemaphoreResult_def DeferredDraw_Set_def layer_defs Let_def split: SemaphoreOp.splits CounterType.splits StructureSize.splits)


lemma ShadowLayer_frame:
  "registers (snd (ShadowLayer T s m a)) = registers s"
  "batchLoadConstantBuffer (snd (ShadowLayer T s m a)) = batchLoadConstantBuffer s"
  "deferredDraw (snd (ShadowLayer T s m a)) = deferredDraw s"
  "macroState (snd (ShadowLayer T s m a)) = macroState s"
  "calls (snd (ShadowLayer T s m a)) = calls s"
  "logger (snd (ShadowLayer T s m a)) = logger s"
  by (simp_all add: ShadowLayer_def Let_def)

lemma HandleMethod_unfold:
  "m \<noteq> Mme_ShadowRamControl \<Longrightarrow>
   HandleMethod T s m a =
     (case layerFlow T s m a of
        Return s3 \<Rightarrow> Returned s3
      | Continue s3 \<Rightarrow>
          MethodSwitch T (DirtyLayer T s3 m (effArg T s m a) (registers s m = effArg T s m a))
            m (effArg T s m a))"
  unfolding HandleMethod_def layerFlow_def committed_def effArg_def Let_def case_prod_beta
    ShadowLayer_frame
  by simp

lemma committed_simps:
  "registers (committed T s m a) = (registers s)(m := effArg T s m a)"
  "batchLoadConstantBuffer (committed T s m a) = batchLoadConstantBuffer s"
  "deferredDraw (committed T s m a) = deferredDraw s"
  "macroState (committed T s m a) = macroState s"
  "calls (committed T s m a) = calls s"
  "logger (committed T s m a) = logger s"
  by (simp_all add: committed_def setReg_def ShadowLayer_frame)

lemma layerFlow_other:
  "\<not> dataMethod m \<Longrightarrow> \<not> drawMethod m \<Longrightarrow>
   layerFlow T s m a = Continue (flushed (committed T s m a))"
  by (cases m) (simp_all add: layerFlow_def flushed_def BatchLayer_def DeferredDrawLayer_def Let_def)

lemma flushed_frame:
  "registers (flushed s) = registers s"
  "macroState (flushed s) = macroState s"
  "logger (flushed s) = logger s"
  "shadowRegisters (flushed s) = shadowRegisters s"
  by (simp_all add: flushed_def SubmitBatch_def FlushDeferredDraw_def emit_def Let_def)

lemma DirtyLayer_frame:
  "registers (DirtyLayer T s m a r) = registers s"
  "macroState (DirtyLayer T s m a r) = macroState s"
  "logger (DirtyLayer T s m a r) = logger s"
  "shadowRegisters (DirtyLayer T s m a r) = shadowRegisters s"
  "batchLoadConstantBuffer (DirtyLayer T s m a r) = batchLoadConstantBuffer s"
  "deferredDraw (DirtyLayer T s m a r) = deferredDraw s"
  by (cases m; simp add: DirtyLayer_def emit_def Let_def)+

lemma HandleMethod_other:
  "\<not> dataMethod m \<Longrightarrow> \<not> drawMethod m \<Longrightarrow> m \<noteq> Mme_ShadowRamControl \<Longrightarrow>
   HandleMethod T s m a =
     MethodSwitch T (DirtyLayer T (flushed (committed T s m a)) m (effArg T s m a)
                      (registers s m = effArg T s m a)) m (effArg T s m a)"
  by (simp add: HandleMethod_unfold layerFlow_other)

lemma word_mod_small:
  fixes p :: u32
  assumes "0 < n"
  shows "unat (word_of_nat (unat (p + 1) mod n) :: u32) = unat (p + 1) mod n"
proof -
  have "unat (p + 1) mod n \<le> unat (p + 1)" by simp
  also have "\<dots> < 2 ^ 32" using unsigned_less [of "p + 1"] by simp
  finally show ?thesis by (simp add: unat_of_nat)
qed

lemma MethodSwitch_InstructionRamLoad:
  "MethodSwitch T s Mme_InstructionRamLoad w =
     (if length (macroCode (macroState s)) \<le> unat (registers s Mme_InstructionRamPointer)
      then Threw (Exception ''Macro memory is full!'') s
      else Returned
             (setReg Mme_InstructionRamPointer
                (of_nat (unat (registers s Mme_InstructionRamPointer + 1)
                         mod length (macroCode (macroState s))))
                (s\<lparr>macroState := (macroState s)\<lparr>macroCode :=
                     (macroCode (macroState s))[unat (registers s Mme_InstructionRamPointer) := w]\<rparr>\<rparr>)))"
  by (simp add: MethodSwitch_def Let_def)

lemma MethodSwitch_StartAddressRamLoad:
  "MethodSwitch T s Mme_StartAddressRamLoad w =
     (if length (macroPositions (macroState s)) \<le> unat (registers s Mme_StartAddressRamPointer)
      then Threw (Exception ''Maximum amount of macros reached!'') s
      else Returned
             (setReg Mme_StartAddressRamPointer (registers s Mme_StartAddressRamPointer + 1)
                (s\<lparr>macroState := (macroState s)\<lparr>macroPositions :=
                     (macroPositions (macroState s))[unat (registers s Mme_StartAddressRamPointer) := w]\<rparr>\<rparr>)))"
  by (simp add: MethodSwitch_def Let_def)

lemma HandleMethod_commits:
  assumes "m \<noteq> Mme_ShadowRamControl"
  shows "registers (state_of (HandleMethod T s m a)) m = fst (ShadowLayer T s m a)"
proof -
  obtain a' s1 where sl: "ShadowLayer T s m a = (a', s1)"
    by (cases "ShadowLayer T s m a")
  define s2 where "s2 = setReg m a' s1"
  define f where "f = (if Active (batchLoadConstantBuffer s2) then BatchLayer s2 m a'
                  else if pending (deferredDraw s2)
                       then DeferredDrawLayer T s2 m a' (registers s1 m = a')
                       else Continue s2)"
  have r2: "registers s2 m = a'"
    by (simp add: s2_def setReg_def)
  have rf: "registers (flow_state f) m = a'"
    unfolding f_def using r2 by (simp add: BatchLayer_registers DeferredDrawLayer_registers)
  have hm: "HandleMethod T s m a =
      (case f of Return s3 \<Rightarrow> Returned s3
       | Continue s3 \<Rightarrow> MethodSwitch T (DirtyLayer T s3 m a' (registers s1 m = a')) m a')"
    using assms by (simp add: HandleMethod_def sl Let_def s2_def f_def)
  show ?thesis
  proof (cases f)
    case (Return s3)
    with rf hm sl show ?thesis by simp
  next
    case (Continue s3)
    with rf hm sl show ?thesis
      by (simp add: MethodSwitch_registers DirtyLayer_registers)
  qed
qed

text \<open>Claim C4. In replay mode the value HandleMethod commits to the register file at any
  method other than the shadow-RAM control register is the value the shadow copy holds at that
  method, whatever the incoming argument; a write to the control register itself goes
  unadjusted to both the register file and the shadow copy, and nothing else happens.\<close>

theorem shadow_replay_commits_shadow_value:
  "(m \<noteq> Mme_ShadowRamControl \<and>
    shadowRamControlOf T (shadowRegisters s Mme_ShadowRamControl) = MethodReplay \<longrightarrow>
      registers (state_of (HandleMethod T s m a)) m = shadowRegisters s m) \<and>
   HandleMethod T s Mme_ShadowRamControl a =
     Returned (s\<lparr>registers := (registers s)(Mme_ShadowRamControl := a),
                 shadowRegisters := (shadowRegisters s)(Mme_ShadowRamControl := a)\<rparr>)"
proof -
  have "registers (state_of (HandleMethod T s m a)) m = shadowRegisters s m"
    if "m \<noteq> Mme_ShadowRamControl"
      and "shadowRamControlOf T (shadowRegisters s Mme_ShadowRamControl) = MethodReplay"
    using HandleMethod_commits [OF that(1), of T s a] that(2)
    by (simp add: ShadowLayer_def)
  moreover have "HandleMethod T s Mme_ShadowRamControl a =
     Returned (s\<lparr>registers := (registers s)(Mme_ShadowRamControl := a),
                 shadowRegisters := (shadowRegisters s)(Mme_ShadowRamControl := a)\<rparr>)"
    by (simp add: HandleMethod_def)
  ultimately show ?thesis by blast
qed

text \<open>In replay mode with 7 in the shadow copy of \<open>begin\<close>, writing 9 commits 7.\<close>

theorem shadow_replay_commits_shadow_value_witness:
  "Begin \<noteq> Mme_ShadowRamControl \<and>
   shadowRamControlOf exampleTypes (shadowRegisters replayState Mme_ShadowRamControl) = MethodReplay \<and>
   registers (state_of (HandleMethod exampleTypes replayState Begin 9)) Begin = 7 \<and>
   shadowRegisters replayState Begin = 7"
  using shadow_replay_commits_shadow_value
    [where m = Begin and T = exampleTypes and s = replayState and a = 9]
  by (simp add: example_defs replayState_def)


text \<open>Claim C8, amended. A write to the instruction-RAM load method throws exactly when the
  instruction RAM pointer is at or beyond the size of the microcode memory, and then leaves the
  macro state and the pointer as they were; otherwise it stores the word at the pointer and the
  pointer becomes the incremented pointer modulo the size, below the size. A write to the
  start-address load method throws exactly when the start-address pointer is at or beyond the
  size of the macro-position table, leaving macro state and pointer as they were; otherwise it
  stores the word and adds one to the pointer. The word is the argument as the shadow layer
  leaves it.\<close>

theorem macro_ram_load_capacity:
  "(let r = HandleMethod T s Mme_InstructionRamLoad argument;
        p = registers s Mme_InstructionRamPointer;
        code = macroCode (macroState s);
        w = effArg T s Mme_InstructionRamLoad argument;
        s' = state_of r
    in if length code \<le> unat p
       then exception_of r = Some (Exception ''Macro memory is full!'') \<and>
            macroState s' = macroState s \<and> registers s' Mme_InstructionRamPointer = p
       else exception_of r = None \<and>
            macroState s' = (macroState s)\<lparr>macroCode := code[unat p := w]\<rparr> \<and>
            unat (registers s' Mme_InstructionRamPointer) = unat (p + 1) mod length code \<and>
            unat (registers s' Mme_InstructionRamPointer) < length code) \<and>
   (let r = HandleMethod T s Mme_StartAddressRamLoad argument;
        p = registers s Mme_StartAddressRamPointer;
        positions = macroPositions (macroState s);
        w = effArg T s Mme_StartAddressRamLoad argument;
        s' = state_of r
    in if length positions \<le> unat p
       then exception_of r = Some (Exception ''Maximum amount of macros reached!'') \<and>
            macroState s' = macroState s \<and> registers s' Mme_StartAddressRamPointer = p
       else exception_of r = None \<and>
            macroState s' = (macroState s)\<lparr>macroPositions := positions[unat p := w]\<rparr> \<and>
            registers s' Mme_StartAddressRamPointer = p + 1)"
proof -
  let ?s1 = "DirtyLayer T (flushed (committed T s Mme_InstructionRamLoad argument))
               Mme_InstructionRamLoad (effArg T s Mme_InstructionRamLoad argument)
               (registers s Mme_InstructionRamLoad = effArg T s Mme_InstructionRamLoad argument)"
  let ?s2 = "DirtyLayer T (flushed (committed T s Mme_StartAddressRamLoad argument))
               Mme_StartAddressRamLoad (effArg T s Mme_StartAddressRamLoad argument)
               (registers s Mme_StartAddressRamLoad = effArg T s Mme_StartAddressRamLoad argument)"
  have r1: "registers ?s1 Mme_InstructionRamPointer = registers s Mme_InstructionRamPointer"
    and m1: "macroState ?s1 = macroState s"
    and r2: "registers ?s2 Mme_StartAddressRamPointer = registers s Mme_StartAddressRamPointer"
    and m2: "macroState ?s2 = macroState s"
    by (simp_all add: DirtyLayer_frame flushed_frame committed_simps)
  have h1: "HandleMethod T s Mme_InstructionRamLoad argument =
      MethodSwitch T ?s1 Mme_InstructionRamLoad (effArg T s Mme_InstructionRamLoad argument)"
    and h2: "HandleMethod T s Mme_StartAddressRamLoad argument =
      MethodSwitch T ?s2 Mme_StartAddressRamLoad (effArg T s Mme_StartAddressRamLoad argument)"
    by (simp_all add: HandleMethod_other)
  have pos: "0 < length (macroCode (macroState s))"
    if "\<not> length (macroCode (macroState s)) \<le> unat (registers s Mme_InstructionRamPointer)"
    using that by (cases "macroCode (macroState s)") simp_all
  show ?thesis
    unfolding h1 h2 MethodSwitch_InstructionRamLoad MethodSwitch_StartAddressRamLoad
    using word_mod_small [OF pos] pos
    by (simp add: r1 m1 r2 m2 Let_def setReg_def)
qed

text \<open>Both branches, on a full and on an empty four-word microcode memory.\<close>

theorem macro_ram_load_capacity_witness:
  "exception_of (HandleMethod exampleTypes fullState Mme_InstructionRamLoad 5) =
     Some (Exception ''Macro memory is full!'') \<and>
   exception_of (HandleMethod exampleTypes fullState Mme_StartAddressRamLoad 5) =
     Some (Exception ''Maximum amount of macros reached!'') \<and>
   exception_of (HandleMethod exampleTypes exampleState Mme_InstructionRamLoad 5) = None \<and>
   macroCode (macroState (state_of (HandleMethod exampleTypes exampleState Mme_InstructionRamLoad 5)))
     = [5, 0, 0, 0] \<and>
   registers (state_of (HandleMethod exampleTypes exampleState Mme_StartAddressRamLoad 5))
     Mme_StartAddressRamPointer = 1"
  using macro_ram_load_capacity [where T = exampleTypes and s = fullState and argument = 5]
    macro_ram_load_capacity [where T = exampleTypes and s = exampleState and argument = 5]
  by (simp add: example_defs fullState_def effArg_def ShadowLayer_def Let_def)

text \<open>Claim C8 as stated fails: on the error path the write has already been committed to the
  register file and the register marked dirty.\<close>

theorem macro_ram_full_modifies_state_counterexample:
  "threw (HandleMethod exampleTypes fullState Mme_InstructionRamLoad 5) \<and>
   registers fullState Mme_InstructionRamLoad = 0 \<and>
   registers (state_of (HandleMethod exampleTypes fullState Mme_InstructionRamLoad 5))
     Mme_InstructionRamLoad = 5 \<and>
   calls fullState = [] \<and>
   calls (state_of (HandleMethod exampleTypes fullState Mme_InstructionRamLoad 5)) =
     [MarkDirty Mme_InstructionRamLoad]"
  by (simp add: example_defs fullState_def run_defs)


lemmas switch_defs = MethodSwitch_def WriteSemaphoreResult_def DeferredDraw_Set_def
  emit_def logMsg_def setReg_def Let_def

lemma MethodSwitch_frame:
  "shadowRegisters (state_of (MethodSwitch T s m a)) = shadowRegisters s"
  "filter isDraw (calls (state_of (MethodSwitch T s m a))) = filter isDraw (calls s)"
  "filter isLoadConstantBuffer (calls (state_of (MethodSwitch T s m a))) =
     filter isLoadConstantBuffer (calls s)"
  "filter isChangeCall (calls (state_of (MethodSwitch T s m a))) = filter isChangeCall (calls s)"
  by (cases m; simp add: switch_defs
      split: SemaphoreOp.splits CounterType.splits StructureSize.splits)+

lemma BatchLayer_frame:
  "shadowRegisters (flow_state (BatchLayer s m a)) = shadowRegisters s"
  "filter isDraw (calls (flow_state (BatchLayer s m a))) = filter isDraw (calls s)"
  "filter isChangeCall (calls (flow_state (BatchLayer s m a))) = filter isChangeCall (calls s)"
  "deferredDraw (flow_state (BatchLayer s m a)) = deferredDraw s"
  by (cases m; simp add: layer_defs Let_def)+

lemma DeferredDrawLayer_frame:
  "shadowRegisters (flow_state (DeferredDrawLayer T s m a r)) = shadowRegisters s"
  "filter isLoadConstantBuffer (calls (flow_state (DeferredDrawLayer T s m a r))) =
     filter isLoadConstantBuffer (calls s)"
  "filter isChangeCall (calls (flow_state (DeferredDrawLayer T s m a r))) =
     filter isChangeCall (calls s)"
  "batchLoadConstantBuffer (flow_state (DeferredDrawLayer T s m a r)) = batchLoadConstantBuffer s"
  by (cases m; simp add: layer_defs Let_def)+

lemma DirtyLayer_calls:
  "filter isDraw (calls (DirtyLayer T s m a r)) = filter isDraw (calls s)"
  "filter isLoadConstantBuffer (calls (DirtyLayer T s m a r)) = filter isLoadConstantBuffer (calls s)"
  "DirtyLayer T s m a True = s"
  by (cases m; simp add: DirtyLayer_def emit_def Let_def)+

lemma committed_shadow:
  "shadowRegisters (committed T s m a) = shadowRegisters (snd (ShadowLayer T s m a))"
  by (simp add: committed_def setReg_def)

lemma layerFlow_frame:
  "shadowRegisters (flow_state (layerFlow T s m a)) = shadowRegisters (snd (ShadowLayer T s m a))"
  "filter isChangeCall (calls (flow_state (layerFlow T s m a))) = filter isChangeCall (calls s)"
  by (simp_all add: layerFlow_def Let_def BatchLayer_frame DeferredDrawLayer_frame
      committed_shadow committed_simps)

lemma HandleMethod_shadow:
  assumes "m \<noteq> Mme_ShadowRamControl"
  shows "shadowRegisters (state_of (HandleMethod T s m a)) =
         shadowRegisters (snd (ShadowLayer T s m a))"
proof (cases "layerFlow T s m a")
  case (Return s3)
  with layerFlow_frame(1) [of T s m a] show ?thesis
    by (simp add: HandleMethod_unfold [OF assms])
next
  case (Continue s3)
  with layerFlow_frame(1) [of T s m a] show ?thesis
    by (simp add: HandleMethod_unfold [OF assms] MethodSwitch_frame DirtyLayer_frame)
qed

lemma effArg_after:
  assumes "m \<noteq> Mme_ShadowRamControl"
  shows "effArg T (state_of (HandleMethod T s m a)) m' b = effArg T s m' b"
  using assms
  by (simp add: effArg_def ShadowLayer_def [of T "state_of (HandleMethod T s m a)"]
      HandleMethod_shadow ShadowLayer_def [of T s] Let_def)

lemma HandleMethod_redundant_calls:
  assumes "m \<noteq> Mme_ShadowRamControl" and "registers s m = effArg T s m a"
  shows "filter isChangeCall (calls (state_of (HandleMethod T s m a))) = filter isChangeCall (calls s)"
proof (cases "layerFlow T s m a")
  case (Return s3)
  with layerFlow_frame(2) [of T s m a] show ?thesis
    by (simp add: HandleMethod_unfold [OF assms(1)])
next
  case (Continue s3)
  with layerFlow_frame(2) [of T s m a] assms(2) show ?thesis
    by (simp add: HandleMethod_unfold [OF assms(1)] MethodSwitch_frame DirtyLayer_calls)
qed

lemma HandleMethod_commits_eff:
  "m \<noteq> Mme_ShadowRamControl \<Longrightarrow>
   registers (state_of (HandleMethod T s m a)) m = effArg T s m a"
  by (simp add: HandleMethod_commits effArg_def)

text \<open>Claim C5, amended. When the same value is written twice in a row to a method, the second
  write makes no dirty-marking call and none of the calls of the change-triggered switch, and
  after each of the two writes the register holds the written value (the shadow value in replay
  mode).\<close>

theorem redundant_write_marks_nothing_dirty:
  "(let s1 = state_of (HandleMethod T s m a);
        s2 = state_of (HandleMethod T s1 m a)
    in filter isChangeCall (calls s2) = filter isChangeCall (calls s1) \<and>
       registers s1 m = writtenValue T s m a \<and>
       registers s2 m = writtenValue T s m a)"
proof (cases "m = Mme_ShadowRamControl")
  case True
  then show ?thesis by (simp add: HandleMethod_def writtenValue_def)
next
  case False
  let ?s1 = "state_of (HandleMethod T s m a)"
  have c1: "registers ?s1 m = effArg T s m a"
    using False by (rule HandleMethod_commits_eff)
  have e2: "effArg T ?s1 m a = effArg T s m a"
    using False by (simp add: effArg_after)
  have c2: "registers (state_of (HandleMethod T ?s1 m a)) m = effArg T s m a"
    using HandleMethod_commits_eff [OF False, of T ?s1 a] e2 by simp
  have "filter isChangeCall (calls (state_of (HandleMethod T ?s1 m a))) = filter isChangeCall (calls ?s1)"
    using False c1 e2 by (intro HandleMethod_redundant_calls) simp_all
  with c1 c2 False show ?thesis by (simp add: writtenValue_def Let_def)
qed

text \<open>Two writes of 3 to the patch size: one dirty mark and one direct-state call in all.\<close>

theorem redundant_write_marks_nothing_dirty_witness:
  "filter isChangeCall (calls (state_of (CallMethods exampleTypes exampleState
      [(PatchSize, 3), (PatchSize, 3)]))) = [MarkDirty PatchSize, SetPatchControlPoints 3] \<and>
   filter isChangeCall (calls (state_of (HandleMethod exampleTypes exampleState PatchSize 3))) =
     [MarkDirty PatchSize, SetPatchControlPoints 3] \<and>
   registers (state_of (HandleMethod exampleTypes exampleState PatchSize 3)) PatchSize = 3"
  using redundant_write_marks_nothing_dirty
    [where T = exampleTypes and s = exampleState and m = PatchSize and a = 3]
  by (simp add: example_defs run_defs writtenValue_def)

text \<open>Claim C5 as stated fails: the clear request of the unconditional switch is repeated by
  the redundant second write.\<close>

theorem redundant_write_repeats_clear_counterexample:
  "calls (state_of (CallMethods exampleTypes exampleState [(ClearSurface, 1)])) =
     [MarkDirty ClearSurface, Clear 1] \<and>
   calls (state_of (CallMethods exampleTypes exampleState [(ClearSurface, 1), (ClearSurface, 1)])) =
     [MarkDirty ClearSurface, Clear 1, Clear 1]"
  by (simp add: example_defs run_defs)



subsection \<open>Draws while a draw is pending\<close>

lemma layerFlow_pending:
  "\<not> Active (batchLoadConstantBuffer s) \<Longrightarrow> pending (deferredDraw s) \<Longrightarrow>
   layerFlow T s m a =
     DeferredDrawLayer T (committed T s m a) m (effArg T s m a) (registers s m = effArg T s m a)"
  by (simp add: layerFlow_def committed_simps Let_def)

lemma HandleMethod_draw_count_pending:
  assumes "pending (deferredDraw s)" and "\<not> Active (batchLoadConstantBuffer s)"
    and "m = DrawVertexArray_Count \<or> m = DrawIndexBuffer_Count"
  shows "HandleMethod T s m a =
     Returned (if registers s m = effArg T s m a then committed T s m a
               else logMsg Warn (if m = DrawVertexArray_Count
                                 then ''Vertex count changed partway through instanced draw!''
                                 else ''Index count changed partway through instanced draw!'')
                      (committed T s m a))"
  using assms
  by (auto simp add: HandleMethod_unfold layerFlow_pending DeferredDrawLayer_def)


lemma MethodSwitch_batch:
  "\<not> dataMethod m \<Longrightarrow>
   batchLoadConstantBuffer (state_of (MethodSwitch T s m a)) = batchLoadConstantBuffer s"
  by (cases m; simp add: switch_defs
      split: SemaphoreOp.splits CounterType.splits StructureSize.splits)

lemma MethodSwitch_deferredDraw:
  "\<not> drawMethod m \<Longrightarrow> deferredDraw (state_of (MethodSwitch T s m a)) = deferredDraw s"
  by (cases m; simp add: switch_defs
      split: SemaphoreOp.splits CounterType.splits StructureSize.splits)

lemma MethodSwitch_pending:
  "m \<noteq> DrawVertexArray_Count \<Longrightarrow> m \<noteq> DrawIndexBuffer_Count \<Longrightarrow>
   pending (deferredDraw (state_of (MethodSwitch T s m a))) = pending (deferredDraw s)"
  by (cases m; simp add: switch_defs
      split: SemaphoreOp.splits CounterType.splits StructureSize.splits)

lemma MethodSwitch_draw_count_batch:
  "m = DrawVertexArray_Count \<or> m = DrawIndexBuffer_Count \<Longrightarrow>
   batchLoadConstantBuffer (state_of (MethodSwitch T s m a)) = batchLoadConstantBuffer s"
  by (auto simp add: switch_defs)

lemma exclusive_MethodSwitch:
  assumes "\<not> pending (deferredDraw s)"
    and "dataMethod m \<or> \<not> Active (batchLoadConstantBuffer s)"
  shows "exclusive (state_of (MethodSwitch T s m a))"
proof (cases "m = DrawVertexArray_Count \<or> m = DrawIndexBuffer_Count")
  case True
  then have "\<not> dataMethod m" by auto
  with assms True show ?thesis
    by (simp add: exclusive_def MethodSwitch_draw_count_batch)
next
  case False
  with assms(1) show ?thesis
    by (simp add: exclusive_def MethodSwitch_pending)
qed

lemma BatchLayer_cases:
  "BatchLayer s m a =
     (if dataMethod m
      then Return (setReg LoadConstantBuffer_Offset (registers s LoadConstantBuffer_Offset + 4)
                     (s\<lparr>batchLoadConstantBuffer :=
                          (batchLoadConstantBuffer s)\<lparr>buffer := buffer (batchLoadConstantBuffer s) @ [a]\<rparr>\<rparr>))
      else Continue (SubmitBatch s))"
  by (cases m) (simp_all add: BatchLayer_def Let_def)

lemma DeferredDrawLayer_other:
  "\<not> drawMethod m \<Longrightarrow> DeferredDrawLayer T s m a r = Continue (FlushDeferredDraw s)"
  by (cases m) (simp_all add: DeferredDrawLayer_def)

lemma SubmitBatch_simps:
  "batchLoadConstantBuffer (SubmitBatch s) = Reset (batchLoadConstantBuffer s)"
  "deferredDraw (SubmitBatch s) = deferredDraw s"
  "registers (SubmitBatch s) = registers s"
  "calls (SubmitBatch s) =
     calls s @ [LoadConstantBuffer (buffer (batchLoadConstantBuffer s))
                  (startOffset (batchLoadConstantBuffer s))]"
  by (simp_all add: SubmitBatch_def emit_def Invalidate_def Let_def)

lemma FlushDeferredDraw_simps:
  "batchLoadConstantBuffer (FlushDeferredDraw s) = batchLoadConstantBuffer s"
  "registers (FlushDeferredDraw s) = registers s"
  "pending (deferredDraw (FlushDeferredDraw s)) = False"
  "pending (deferredDraw s) \<Longrightarrow>
     deferredDraw (FlushDeferredDraw s) = (deferredDraw s)\<lparr>pending := False, instanceCount := 1\<rparr>"
  "pending (deferredDraw s) \<Longrightarrow>
     calls (FlushDeferredDraw s) =
       calls s @ [Draw (drawTopology (deferredDraw s)) (indexed (deferredDraw s))
                    (drawCount (deferredDraw s)) (drawFirst (deferredDraw s))
                    (instanceCount (deferredDraw s)) (drawBaseVertex (deferredDraw s))
                    (drawBaseInstance (deferredDraw s))]"
  by (simp_all add: FlushDeferredDraw_def emit_def Let_def)

lemma exclusive_HandleMethod:
  assumes "exclusive s"
  shows "exclusive (state_of (HandleMethod T s m a))"
proof (cases "m = Mme_ShadowRamControl")
  case True
  with assms show ?thesis by (simp add: HandleMethod_def exclusive_def)
next
  case control: False
  let ?s2 = "committed T s m a" and ?e = "effArg T s m a" and ?r = "registers s m = effArg T s m a"
  show ?thesis
  proof (cases "Active (batchLoadConstantBuffer s)")
    case True
    with assms have np: "\<not> pending (deferredDraw s)" by (simp add: exclusive_def)
    from True have lf: "layerFlow T s m a = BatchLayer ?s2 m ?e"
      by (simp add: layerFlow_def committed_simps Let_def)
    show ?thesis
    proof (cases "dataMethod m")
      case True
      with np show ?thesis
        by (simp add: HandleMethod_unfold [OF control] lf BatchLayer_cases exclusive_def
            setReg_def committed_simps)
    next
      case False
      have "exclusive (state_of (MethodSwitch T (DirtyLayer T (SubmitBatch ?s2) m ?e ?r) m ?e))"
        using np by (intro exclusive_MethodSwitch)
          (simp_all add: DirtyLayer_frame SubmitBatch_simps committed_simps Reset_def Active_def)
      with False show ?thesis
        by (simp add: HandleMethod_unfold [OF control] lf BatchLayer_cases)
    qed
  next
    case inactive: False
    show ?thesis
    proof (cases "pending (deferredDraw s)")
      case True
      have lf: "layerFlow T s m a = DeferredDrawLayer T ?s2 m ?e ?r"
        using inactive True by (rule layerFlow_pending)
      have ex2: "exclusive ?s2"
        using inactive by (simp add: exclusive_def committed_simps)
      show ?thesis
      proof (cases "drawMethod m")
        case False
        have "exclusive (state_of (MethodSwitch T (DirtyLayer T (FlushDeferredDraw ?s2) m ?e ?r) m ?e))"
          using inactive by (intro exclusive_MethodSwitch)
            (simp_all add: DirtyLayer_frame FlushDeferredDraw_simps committed_simps)
        with False show ?thesis
          by (simp add: HandleMethod_unfold [OF control] lf DeferredDrawLayer_other)
      next
        case dm: True
        have after_flush:
          "exclusive (state_of (MethodSwitch T (DirtyLayer T (FlushDeferredDraw ?s2) m ?e ?r) m ?e))"
          using inactive by (intro exclusive_MethodSwitch)
            (simp_all add: DirtyLayer_frame FlushDeferredDraw_simps committed_simps)
        have hm: "HandleMethod T s m a =
            (case DeferredDrawLayer T ?s2 m ?e ?r of
               Return s3 \<Rightarrow> Returned s3
             | Continue s3 \<Rightarrow> MethodSwitch T (DirtyLayer T s3 m ?e ?r) m ?e)"
          by (simp add: HandleMethod_unfold [OF control] lf)
        from dm consider "m = Begin" | "m = End"
          | "m = DrawVertexArray_Count" | "m = DrawIndexBuffer_Count"
          by (cases m) simp_all
        then show ?thesis
          using inactive after_flush unfolding hm
          by cases
            (simp_all add: DeferredDrawLayer_def exclusive_def committed_simps logMsg_def Let_def)
      qed
    next
      case False
      have lf: "layerFlow T s m a = Continue ?s2"
        using inactive False by (simp add: layerFlow_def committed_simps Let_def)
      have "exclusive (state_of (MethodSwitch T (DirtyLayer T ?s2 m ?e ?r) m ?e))"
        using inactive False by (intro exclusive_MethodSwitch)
          (simp_all add: DirtyLayer_frame committed_simps)
      then show ?thesis
        by (simp add: HandleMethod_unfold [OF control] lf)
    qed
  qed
qed

lemma exclusive_FlushEngineState: "exclusive (FlushEngineState s)"
  by (simp add: FlushEngineState_def exclusive_def SubmitBatch_simps FlushDeferredDraw_simps
      Reset_def Active_def Let_def)

lemma exclusive_exampleState: "exclusive exampleState"
  by (simp add: exclusive_def exampleState_def Active_def)

text \<open>Claim C7, amended. While a draw is pending, a write to drawVertexArray.count or
  drawIndexBuffer.count returns without an exception, flushes nothing, makes no downstream
  call and leaves the deferred-draw record as it was, so the draw call made when the pending
  draw is flushed afterwards still carries the topology, count, first, instance count, base
  vertex and base instance recorded before. It logs one warning exactly when the written count
  (as the shadow layer leaves it) differs from the value the count register holds at the time
  of the write, which is the count written last and not the count the pending draw
  recorded.\<close>

theorem repeated_draw_count_keeps_pending_draw:
  assumes "pending (deferredDraw s)" and "exclusive s"
    and "m = DrawVertexArray_Count \<or> m = DrawIndexBuffer_Count"
  shows "(let r = HandleMethod T s m a; s' = state_of r; d = deferredDraw s in
          exception_of r = None \<and> deferredDraw s' = d \<and> calls s' = calls s \<and>
          batchLoadConstantBuffer s' = batchLoadConstantBuffer s \<and>
          logger s' = logger s @
            (if registers s m = effArg T s m a then []
             else [(Warn, if m = DrawVertexArray_Count
                          then ''Vertex count changed partway through instanced draw!''
                          else ''Index count changed partway through instanced draw!'')]) \<and>
          calls (FlushDeferredDraw s') =
            calls s @ [Draw (drawTopology d) (indexed d) (drawCount d) (drawFirst d)
                         (instanceCount d) (drawBaseVertex d) (drawBaseInstance d)])"
proof -
  from assms(1,2) have "\<not> Active (batchLoadConstantBuffer s)"
    by (auto simp add: exclusive_def split: if_splits)
  with assms(1,3) show ?thesis
    by (simp add: HandleMethod_draw_count_pending FlushDeferredDraw_simps committed_simps
        logMsg_def Let_def)
qed

text \<open>A draw of 3 vertices is pending; a write of 5 to the vertex count is logged and ignored,
  and the flush draws 3 vertices.\<close>

theorem repeated_draw_count_keeps_pending_draw_witness:
  "pending (deferredDraw pendingState) \<and> exclusive pendingState \<and>
   exception_of (HandleMethod exampleTypes pendingState DrawVertexArray_Count 5) = None \<and>
   logger (state_of (HandleMethod exampleTypes pendingState DrawVertexArray_Count 5)) =
     [(Warn, ''Vertex count changed partway through instanced draw!'')] \<and>
   calls (FlushDeferredDraw (state_of (HandleMethod exampleTypes pendingState DrawVertexArray_Count 5))) =
     [MarkDirty DrawVertexArray_Count, Draw 0 False 3 0 1 0 0]"
  using repeated_draw_count_keeps_pending_draw
    [where s = pendingState and m = DrawVertexArray_Count and T = exampleTypes and a = 5]
  by (simp add: example_defs pendingState_def run_defs exclusive_def)


text \<open>Claim C7 as stated fails: with a draw of 3 vertices pending and 5 written to the vertex
  count since, a further write of 5 differs from the recorded count and is not reported, and a
  write of 3, the recorded count, is reported as a change.\<close>

theorem repeated_draw_count_warning_counterexample:
  "pending (deferredDraw (state_of (CallMethods exampleTypes exampleState
     [(DrawVertexArray_Count, 3), (DrawVertexArray_Count, 5)]))) \<and>
   drawCount (deferredDraw (state_of (CallMethods exampleTypes exampleState
     [(DrawVertexArray_Count, 3), (DrawVertexArray_Count, 5)]))) = 3 \<and>
   logger (state_of (CallMethods exampleTypes exampleState
     [(DrawVertexArray_Count, 3), (DrawVertexArray_Count, 5)])) =
     [(Warn, ''Vertex count changed partway through instanced draw!'')] \<and>
   logger (state_of (CallMethods exampleTypes exampleState
     [(DrawVertexArray_Count, 3), (DrawVertexArray_Count, 5), (DrawVertexArray_Count, 5)])) =
     [(Warn, ''Vertex count changed partway through instanced draw!'')] \<and>
   logger (state_of (CallMethods exampleTypes exampleState
     [(DrawVertexArray_Count, 3), (DrawVertexArray_Count, 5), (DrawVertexArray_Count, 3)])) =
     [(Warn, ''Vertex count changed partway through instanced draw!''),
      (Warn, ''Vertex count changed partway through instanced draw!'')]"
  by (simp add: example_defs run_defs)

subsection \<open>Write streams\<close>

lemma CallMethods_append:
  "CallMethods T s (xs @ ys) =
     (case CallMethods T s xs of
        Returned s' \<Rightarrow> CallMethods T s' ys
      | Threw e s' \<Rightarrow> Threw e s')"
  by (induction xs arbitrary: s) (auto split: outcome.splits)

lemma CallMethods_single:
  "state_of (CallMethods T s [(m, a)]) = state_of (HandleMethod T s m a)"
  by (simp add: CallMethod_def split: outcome.splits)

lemma layerFlow_inactive:
  "\<not> Active (batchLoadConstantBuffer s) \<Longrightarrow> \<not> drawMethod m \<Longrightarrow>
   layerFlow T s m a = Continue (flushed (committed T s m a))"
  by (simp add: layerFlow_def flushed_def committed_simps DeferredDrawLayer_other Let_def)

lemma layerFlow_not_pending:
  "\<not> pending (deferredDraw s) \<Longrightarrow> \<not> dataMethod m \<Longrightarrow>
   layerFlow T s m a = Continue (flushed (committed T s m a))"
  by (simp add: layerFlow_def flushed_def committed_simps BatchLayer_cases Let_def)

lemma flushed_calls:
  "\<not> pending (deferredDraw s) \<Longrightarrow> filter isDraw (calls (flushed s)) = filter isDraw (calls s)"
  "\<not> Active (batchLoadConstantBuffer s) \<Longrightarrow>
     filter isLoadConstantBuffer (calls (flushed s)) = filter isLoadConstantBuffer (calls s)"
  by (simp_all add: flushed_def SubmitBatch_simps FlushDeferredDraw_def emit_def Let_def)

lemma flushed_state:
  "\<not> Active (batchLoadConstantBuffer (flushed s))"
  "\<not> pending (deferredDraw s) \<Longrightarrow> deferredDraw (flushed s) = deferredDraw s"
  "\<not> Active (batchLoadConstantBuffer s) \<Longrightarrow>
     batchLoadConstantBuffer (flushed s) = batchLoadConstantBuffer s"
  by (simp_all add: flushed_def SubmitBatch_simps FlushDeferredDraw_simps Reset_def Active_def)

subsection \<open>Instanced draws\<close>

lemma draw_count_step:
  assumes "\<not> pending (deferredDraw s)"
    and "dm = DrawVertexArray_Count \<or> dm = DrawIndexBuffer_Count"
  shows "\<exists>s1. HandleMethod T s dm n = Returned s1 \<and> pending (deferredDraw s1) \<and>
           instanceCount (deferredDraw s1) = instanceCount (deferredDraw s) \<and>
           drawCount (deferredDraw s1) = effArg T s dm n \<and>
           \<not> Active (batchLoadConstantBuffer s1) \<and>
           filter isDraw (calls s1) = filter isDraw (calls s)"
proof -
  let ?s3 = "DirtyLayer T (flushed (committed T s dm n)) dm (effArg T s dm n)
               (registers s dm = effArg T s dm n)"
  from assms(2) have nd: "\<not> dataMethod dm" and nc: "dm \<noteq> Mme_ShadowRamControl" by auto
  have hm: "HandleMethod T s dm n = MethodSwitch T ?s3 dm (effArg T s dm n)"
    by (simp add: HandleMethod_unfold [OF nc] layerFlow_not_pending [OF assms(1) nd])
  have f3: "deferredDraw ?s3 = deferredDraw s" "\<not> Active (batchLoadConstantBuffer ?s3)"
    "filter isDraw (calls ?s3) = filter isDraw (calls s)"
    using assms(1)
    by (simp_all add: DirtyLayer_frame DirtyLayer_calls flushed_state flushed_calls committed_simps)
  from assms(2) f3 show ?thesis
    unfolding hm by (auto simp add: MethodSwitch_def DeferredDraw_Set_def)
qed

lemma begin_step:
  assumes "pending (deferredDraw s)" and "\<not> Active (batchLoadConstantBuffer s)"
    and "beginInstanceId T (effArg T s Begin b) = Subsequent"
  shows "\<exists>s1. HandleMethod T s Begin b = Returned s1 \<and>
           deferredDraw s1 =
             (deferredDraw s)\<lparr>instanceCount := instanceCount (deferredDraw s) + 1\<rparr> \<and>
           batchLoadConstantBuffer s1 = batchLoadConstantBuffer s \<and> calls s1 = calls s"
  using assms
  by (simp add: HandleMethod_unfold layerFlow_pending DeferredDrawLayer_def committed_simps
      logMsg_def Let_def)

lemma begin_steps:
  assumes "pending (deferredDraw s)" and "\<not> Active (batchLoadConstantBuffer s)"
    and "\<forall>b\<in>set bs. beginInstanceId T (effArg T s Begin b) = Subsequent"
  shows "\<exists>s'. CallMethods T s (map (Pair Begin) bs) = Returned s' \<and>
           deferredDraw s' =
             (deferredDraw s)\<lparr>instanceCount := instanceCount (deferredDraw s) + of_nat (length bs)\<rparr> \<and>
           batchLoadConstantBuffer s' = batchLoadConstantBuffer s \<and> calls s' = calls s"
  using assms
proof (induction bs arbitrary: s)
  case Nil
  then show ?case by simp
next
  case (Cons b bs)
  from Cons.prems obtain s1 where s1: "HandleMethod T s Begin b = Returned s1"
    "deferredDraw s1 = (deferredDraw s)\<lparr>instanceCount := instanceCount (deferredDraw s) + 1\<rparr>"
    "batchLoadConstantBuffer s1 = batchLoadConstantBuffer s" "calls s1 = calls s"
    using begin_step [of s T b] by auto
  have eff: "effArg T s1 Begin b' = effArg T s Begin b'" for b'
    using effArg_after [of Begin T s b Begin b'] s1(1) by simp
  from Cons.prems s1 eff obtain s' where s': "CallMethods T s1 (map (Pair Begin) bs) = Returned s'"
    "deferredDraw s' =
       (deferredDraw s1)\<lparr>instanceCount := instanceCount (deferredDraw s1) + of_nat (length bs)\<rparr>"
    "batchLoadConstantBuffer s' = batchLoadConstantBuffer s1" "calls s' = calls s1"
    using Cons.IH [of s1] by auto
  from s1 s' show ?case
    by (simp add: CallMethod_def add.assoc add.commute)
qed

lemma unrelated_step:
  assumes "pending (deferredDraw s)" and "\<not> Active (batchLoadConstantBuffer s)"
    and "\<not> drawMethod m" and "m \<noteq> Mme_ShadowRamControl"
  shows "filter isDraw (calls (state_of (HandleMethod T s m a))) =
           filter isDraw (calls s) @
             [Draw (drawTopology (deferredDraw s)) (indexed (deferredDraw s))
                (drawCount (deferredDraw s)) (drawFirst (deferredDraw s))
                (instanceCount (deferredDraw s)) (drawBaseVertex (deferredDraw s))
                (drawBaseInstance (deferredDraw s))]"
    and "deferredDraw (state_of (HandleMethod T s m a)) =
           (deferredDraw s)\<lparr>pending := False, instanceCount := 1\<rparr>"
  using assms
  by (simp_all add: HandleMethod_unfold layerFlow_pending DeferredDrawLayer_other
      MethodSwitch_frame MethodSwitch_deferredDraw DirtyLayer_calls DirtyLayer_frame
      FlushDeferredDraw_simps committed_simps)

text \<open>Claim C2, amended. Start with no draw pending and the instance count at 1. After a write
  to drawVertexArray.count or drawIndexBuffer.count, K begin writes that carry the Subsequent
  marker once through the shadow layer, and one write to a method that is none of begin, end,
  the two draw counts and the shadow-RAM control register, exactly one draw call has been
  made; it carries what the draw-count write recorded and the instance count K + 1 (as a
  32-bit word), and the record is left not pending with the instance count back at 1.\<close>

theorem instanced_draw_coalescing:
  assumes "\<not> pending (deferredDraw s)" and "instanceCount (deferredDraw s) = 1"
    and "dm = DrawVertexArray_Count \<or> dm = DrawIndexBuffer_Count"
    and "\<forall>b\<in>set bs. beginInstanceId T (effArg T s Begin b) = Subsequent"
    and "\<not> drawMethod m" and "m \<noteq> Mme_ShadowRamControl"
  shows "(let d = deferredDraw (state_of (HandleMethod T s dm n));
              s' = state_of (CallMethods T s ((dm, n) # map (Pair Begin) bs @ [(m, a)]))
          in filter isDraw (calls s') =
               filter isDraw (calls s) @
                 [Draw (drawTopology d) (indexed d) (drawCount d) (drawFirst d)
                    (of_nat (length bs) + 1) (drawBaseVertex d) (drawBaseInstance d)] \<and>
             drawCount d = effArg T s dm n \<and>
             \<not> pending (deferredDraw s') \<and> instanceCount (deferredDraw s') = 1)"
proof -
  from assms(1,3) obtain s1 where s1: "HandleMethod T s dm n = Returned s1"
    "pending (deferredDraw s1)" "instanceCount (deferredDraw s1) = instanceCount (deferredDraw s)"
    "drawCount (deferredDraw s1) = effArg T s dm n" "\<not> Active (batchLoadConstantBuffer s1)"
    "filter isDraw (calls s1) = filter isDraw (calls s)"
    using draw_count_step [of s dm T n] by auto
  from assms(3) have nc: "dm \<noteq> Mme_ShadowRamControl" by auto
  have eff: "effArg T s1 Begin b = effArg T s Begin b" for b
    using effArg_after [OF nc, of T s n Begin b] s1(1) by simp
  from s1 assms(4) eff obtain s2 where s2: "CallMethods T s1 (map (Pair Begin) bs) = Returned s2"
    "deferredDraw s2 =
       (deferredDraw s1)\<lparr>instanceCount := instanceCount (deferredDraw s1) + of_nat (length bs)\<rparr>"
    "batchLoadConstantBuffer s2 = batchLoadConstantBuffer s1" "calls s2 = calls s1"
    using begin_steps [of s1 bs T] by auto
  have run: "state_of (CallMethods T s ((dm, n) # map (Pair Begin) bs @ [(m, a)])) =
      state_of (HandleMethod T s2 m a)"
    using s1(1) s2(1) by (simp add: CallMethod_def CallMethods_append split: outcome.splits)
  have p2: "pending (deferredDraw s2)" "\<not> Active (batchLoadConstantBuffer s2)"
    using s1 s2 by simp_all
  show ?thesis
    unfolding run Let_def
    using unrelated_step [OF p2 assms(5,6), of T a] s1 s2 assms(2)
    by (simp add: add.commute)
qed

text \<open>A draw of 3 vertices, two begin writes marked Subsequent, then a clear: one draw call
  with 3 instances.\<close>

theorem instanced_draw_coalescing_witness:
  "\<not> pending (deferredDraw exampleState) \<and> instanceCount (deferredDraw exampleState) = 1 \<and>
   beginInstanceId exampleTypes (effArg exampleTypes exampleState Begin beginSubsequent) = Subsequent \<and>
   \<not> drawMethod ClearSurface \<and> ClearSurface \<noteq> Mme_ShadowRamControl \<and>
   filter isDraw (calls (state_of (CallMethods exampleTypes exampleState
     [(DrawVertexArray_Count, 3), (Begin, beginSubsequent), (Begin, beginSubsequent),
      (ClearSurface, 1)]))) = [Draw 0 False 3 0 3 0 0]"
  using instanced_draw_coalescing
    [where s = exampleState and dm = DrawVertexArray_Count and T = exampleTypes
       and bs = "[beginSubsequent, beginSubsequent]" and m = ClearSurface and n = 3 and a = 1]
  by (simp add: example_defs beginSubsequent_def run_defs)

text \<open>Claim C2 as stated fails: the shadow-RAM control register is not a draw method, and a
  write to it after the draw-count write makes no draw call and leaves the draw pending.\<close>

theorem instanced_draw_not_flushed_counterexample:
  "\<not> drawMethod Mme_ShadowRamControl \<and>
   filter isDraw (calls (state_of (CallMethods exampleTypes exampleState
     [(DrawVertexArray_Count, 3), (Mme_ShadowRamControl, 0)]))) = [] \<and>
   pending (deferredDraw (state_of (CallMethods exampleTypes exampleState
     [(DrawVertexArray_Count, 3), (Mme_ShadowRamControl, 0)])))"
  by (simp add: example_defs run_defs)


subsection \<open>Constant-buffer batches\<close>

lemma data_first_step:
  assumes "\<not> Active (batchLoadConstantBuffer s)" and "i < 16"
  shows "\<exists>s1. HandleMethod T s (LoadConstantBuffer_Data i) w = Returned s1 \<and>
           startOffset (batchLoadConstantBuffer s1) = registers s LoadConstantBuffer_Offset \<and>
           buffer (batchLoadConstantBuffer s1) = [effArg T s (LoadConstantBuffer_Data i) w] \<and>
           registers s1 LoadConstantBuffer_Offset = registers s LoadConstantBuffer_Offset + 4 \<and>
           filter isLoadConstantBuffer (calls s1) = filter isLoadConstantBuffer (calls s)"
proof -
  let ?m = "LoadConstantBuffer_Data i"
  let ?s3 = "DirtyLayer T (flushed (committed T s ?m w)) ?m (effArg T s ?m w)
               (registers s ?m = effArg T s ?m w)"
  have hm: "HandleMethod T s ?m w = MethodSwitch T ?s3 ?m (effArg T s ?m w)"
    using assms(1) by (simp add: HandleMethod_unfold layerFlow_inactive)
  have f3: "batchLoadConstantBuffer ?s3 = batchLoadConstantBuffer s"
    "registers ?s3 LoadConstantBuffer_Offset = registers s LoadConstantBuffer_Offset"
    "filter isLoadConstantBuffer (calls ?s3) = filter isLoadConstantBuffer (calls s)"
    using assms(1)
    by (simp_all add: DirtyLayer_frame DirtyLayer_calls flushed_state flushed_calls flushed_frame
        committed_simps)
  from assms f3 show ?thesis
    unfolding hm by (simp add: MethodSwitch_def setReg_def Active_def Let_def)
qed

lemma data_step:
  assumes "Active (batchLoadConstantBuffer s)" and "i < 16"
  shows "\<exists>s1. HandleMethod T s (LoadConstantBuffer_Data i) w = Returned s1 \<and>
           startOffset (batchLoadConstantBuffer s1) = startOffset (batchLoadConstantBuffer s) \<and>
           buffer (batchLoadConstantBuffer s1) =
             buffer (batchLoadConstantBuffer s) @ [effArg T s (LoadConstantBuffer_Data i) w] \<and>
           registers s1 LoadConstantBuffer_Offset = registers s LoadConstantBuffer_Offset + 4 \<and>
           calls s1 = calls s"
  using assms
  by (simp add: HandleMethod_unfold layerFlow_def BatchLayer_cases committed_simps setReg_def
      Let_def)

lemma data_steps:
  assumes "Active (batchLoadConstantBuffer s)" and "\<forall>p\<in>set ws. fst p < 16"
  shows "\<exists>s'. CallMethods T s (map dataWrite ws) = Returned s' \<and>
           startOffset (batchLoadConstantBuffer s') = startOffset (batchLoadConstantBuffer s) \<and>
           buffer (batchLoadConstantBuffer s') =
             buffer (batchLoadConstantBuffer s) @
               map (\<lambda>p. effArg T s (LoadConstantBuffer_Data (fst p)) (snd p)) ws \<and>
           registers s' LoadConstantBuffer_Offset =
             registers s LoadConstantBuffer_Offset + 4 * of_nat (length ws) \<and>
           calls s' = calls s"
  using assms
proof (induction ws arbitrary: s)
  case Nil
  then show ?case by simp
next
  case (Cons p ws)
  let ?m = "LoadConstantBuffer_Data (fst p)"
  from Cons.prems obtain s1 where s1: "HandleMethod T s ?m (snd p) = Returned s1"
    "startOffset (batchLoadConstantBuffer s1) = startOffset (batchLoadConstantBuffer s)"
    "buffer (batchLoadConstantBuffer s1) =
       buffer (batchLoadConstantBuffer s) @ [effArg T s ?m (snd p)]"
    "registers s1 LoadConstantBuffer_Offset = registers s LoadConstantBuffer_Offset + 4"
    "calls s1 = calls s"
    using data_step [of s "fst p" T "snd p"] by auto
  have eff: "effArg T s1 m' b = effArg T s m' b" for m' b
    using effArg_after [of ?m T s "snd p" m' b] s1(1) by simp
  have a1: "Active (batchLoadConstantBuffer s1)"
    using s1(3) by (simp add: Active_def)
  from Cons.prems obtain s' where s': "CallMethods T s1 (map dataWrite ws) = Returned s'"
    "startOffset (batchLoadConstantBuffer s') = startOffset (batchLoadConstantBuffer s1)"
    "buffer (batchLoadConstantBuffer s') =
       buffer (batchLoadConstantBuffer s1) @
         map (\<lambda>p. effArg T s1 (LoadConstantBuffer_Data (fst p)) (snd p)) ws"
    "registers s' LoadConstantBuffer_Offset =
       registers s1 LoadConstantBuffer_Offset + 4 * of_nat (length ws)"
    "calls s' = calls s1"
    using Cons.IH [OF a1] by auto
  from s1 s' eff show ?case
    by (simp add: CallMethod_def dataWrite_def [of p] algebra_simps)
qed

lemma batch_flush_step:
  assumes "Active (batchLoadConstantBuffer s)" and "\<not> dataMethod m"
    and "m \<noteq> Mme_ShadowRamControl"
  shows "filter isLoadConstantBuffer (calls (state_of (HandleMethod T s m a))) =
           filter isLoadConstantBuffer (calls s) @
             [LoadConstantBuffer (buffer (batchLoadConstantBuffer s))
                (startOffset (batchLoadConstantBuffer s))]"
    and "batchLoadConstantBuffer (state_of (HandleMethod T s m a)) =
           Reset (batchLoadConstantBuffer s)"
  using assms
  by (simp_all add: HandleMethod_unfold layerFlow_def BatchLayer_cases committed_simps
      MethodSwitch_frame MethodSwitch_batch DirtyLayer_calls DirtyLayer_frame SubmitBatch_simps
      Let_def)

text \<open>Claim C3, amended. Start with no batch active. After one or more consecutive writes to
  loadConstantBuffer data registers and then one write to a method that is neither such a data
  register nor the shadow-RAM control register, exactly one LoadConstantBuffer call has been
  made; it carries the written words in write order (each as the shadow layer leaves it) and
  the value the loadConstantBuffer offset register had before the first of the writes, which
  is the start offset the batch recorded; the batch is cleared; and the data writes have
  advanced the offset register by 4 each.\<close>

theorem constant_buffer_batch_coalescing:
  assumes "\<not> Active (batchLoadConstantBuffer s)"
    and "i < 16" and "\<forall>p\<in>set ws. fst p < 16"
    and "\<not> dataMethod m" and "m \<noteq> Mme_ShadowRamControl"
  shows "(let writes = (i, w) # ws;
              sN = state_of (CallMethods T s (map dataWrite writes));
              s' = state_of (CallMethods T s (map dataWrite writes @ [(m, a)]))
          in filter isLoadConstantBuffer (calls s') =
               filter isLoadConstantBuffer (calls s) @
                 [LoadConstantBuffer
                    (map (\<lambda>p. effArg T s (LoadConstantBuffer_Data (fst p)) (snd p)) writes)
                    (registers s LoadConstantBuffer_Offset)] \<and>
             startOffset (batchLoadConstantBuffer sN) = registers s LoadConstantBuffer_Offset \<and>
             registers sN LoadConstantBuffer_Offset =
               registers s LoadConstantBuffer_Offset + 4 * of_nat (length writes) \<and>
             buffer (batchLoadConstantBuffer s') = [] \<and>
             \<not> Active (batchLoadConstantBuffer s'))"
proof -
  let ?m = "LoadConstantBuffer_Data i"
  from assms(1,2) obtain s1 where s1: "HandleMethod T s ?m w = Returned s1"
    "startOffset (batchLoadConstantBuffer s1) = registers s LoadConstantBuffer_Offset"
    "buffer (batchLoadConstantBuffer s1) = [effArg T s ?m w]"
    "registers s1 LoadConstantBuffer_Offset = registers s LoadConstantBuffer_Offset + 4"
    "filter isLoadConstantBuffer (calls s1) = filter isLoadConstantBuffer (calls s)"
    using data_first_step [of s i T w] by auto
  have eff: "effArg T s1 m' b = effArg T s m' b" for m' b
    using effArg_after [of ?m T s w m' b] s1(1) by simp
  have a1: "Active (batchLoadConstantBuffer s1)"
    using s1(3) by (simp add: Active_def)
  from assms(3) obtain s2 where s2: "CallMethods T s1 (map dataWrite ws) = Returned s2"
    "startOffset (batchLoadConstantBuffer s2) = startOffset (batchLoadConstantBuffer s1)"
    "buffer (batchLoadConstantBuffer s2) =
       buffer (batchLoadConstantBuffer s1) @
         map (\<lambda>p. effArg T s1 (LoadConstantBuffer_Data (fst p)) (snd p)) ws"
    "registers s2 LoadConstantBuffer_Offset =
       registers s1 LoadConstantBuffer_Offset + 4 * of_nat (length ws)"
    "calls s2 = calls s1"
    using data_steps [OF a1, of ws T] by auto
  have runN: "CallMethods T s (map dataWrite ((i, w) # ws)) = Returned s2"
    using s1(1) s2(1) by (simp add: CallMethod_def dataWrite_def [of "(i, w)"])
  have run: "state_of (CallMethods T s (map dataWrite ((i, w) # ws) @ [(m, a)])) =
      state_of (HandleMethod T s2 m a)"
    by (simp only: CallMethods_append runN outcome.case CallMethods_single)
  have a2: "Active (batchLoadConstantBuffer s2)"
    using s2(3) s1(3) by (simp add: Active_def)
  show ?thesis
    unfolding Let_def run runN state_of.simps
    using batch_flush_step [OF a2 assms(4,5), of T a] s1 s2 eff
    by (simp add: Reset_def Active_def algebra_simps)
qed

text \<open>Two data writes, then a clear: one bulk load of both words from offset 0.\<close>

theorem constant_buffer_batch_coalescing_witness:
  "\<not> Active (batchLoadConstantBuffer exampleState) \<and>
   \<not> dataMethod ClearSurface \<and> ClearSurface \<noteq> Mme_ShadowRamControl \<and>
   filter isLoadConstantBuffer (calls (state_of (CallMethods exampleTypes exampleState
     [(LoadConstantBuffer_Data 0, 7), (LoadConstantBuffer_Data 1, 8), (ClearSurface, 1)]))) =
     [LoadConstantBuffer [7, 8] 0] \<and>
   registers (state_of (CallMethods exampleTypes exampleState
     [(LoadConstantBuffer_Data 0, 7), (LoadConstantBuffer_Data 1, 8)])) LoadConstantBuffer_Offset = 8"
  using constant_buffer_batch_coalescing
    [where s = exampleState and i = 0 and ws = "[(1, 8)]" and m = ClearSurface
       and T = exampleTypes and w = 7 and a = 1]
  by (simp add: example_defs run_defs dataWrite_def)

text \<open>Claim C3 as stated fails: a write to the shadow-RAM control register after a data write
  makes no bulk load call and leaves the batch active.\<close>

theorem constant_buffer_batch_not_flushed_counterexample:
  "\<not> dataMethod Mme_ShadowRamControl \<and>
   filter isLoadConstantBuffer (calls (state_of (CallMethods exampleTypes exampleState
     [(LoadConstantBuffer_Data 0, 7), (Mme_ShadowRamControl, 0)]))) = [] \<and>
   Active (batchLoadConstantBuffer (state_of (CallMethods exampleTypes exampleState
     [(LoadConstantBuffer_Data 0, 7), (Mme_ShadowRamControl, 0)])))"
  by (simp add: example_defs run_defs)

end
